theory Spec2Isabelle
  imports Main
begin

section \<open>Python values and library functions used by the adapters\<close>

text \<open>
  A value of Python's \<^verbatim>\<open>bytes\<close> is a list of 8-bit characters. A value of \<^verbatim>\<open>str\<close>, a
  sequence of code points, is represented by the UTF-8 encoding of its code points, one
  to four bytes each; a lone surrogate, which a \<^verbatim>\<open>str\<close> can hold and \<^verbatim>\<open>json.loads\<close>
  produces from an escape such as \<^verbatim>\<open>\ud800\<close>, by the three bytes \<^verbatim>\<open>ED A0..BF 80..BF\<close>.
  ASCII delimiters, literals and character classes then act on the bytes as they act on
  the code points; the operations that see code points (the length, an index, a slice,
  white space) go through \<open>chars\<close>.
\<close>

type_synonym bytes = string

text \<open>
  What the HTTP collaborator returns (\<^verbatim>\<open>requests.Response\<close>): the final URL, the status,
  the body as bytes (\<^verbatim>\<open>resp.content\<close>) and the body as \<^verbatim>\<open>requests\<close> decodes it with the
  encoding it chooses (\<^verbatim>\<open>resp.text\<close>).
\<close>

record response =
  resp_url :: string
  status_code :: nat
  resp_content :: bytes
  resp_text :: string

text \<open>
  The exceptions the adapters can raise. \<open>Unmodelled\<close> marks library behaviour that
  is outside this model (named where it is used); no theorem speaks about it.
  \<open>HTTPError\<close> is the one \<^verbatim>\<open>Response.raise_for_status\<close> raises, with its response;
  \<open>ConnectionError\<close> stands for the failures of the transport itself.
\<close>

datatype error =
    AssertionError
  | AttributeError
  | IndexError
  | KeyError
  | TypeError
  | ValueError
  | UnboundLocalError
  | UnicodeDecodeError
  | UnicodeEncodeError
  | JSONDecodeError
  | NotLoggedInError
  | SubmissionError "string option"
  | SampleParseError string
  | HTTPError response
  | ConnectionError string
  | Unmodelled

subsection \<open>Code points, encoding and decoding\<close>

text \<open>A continuation byte of UTF-8, \<^verbatim>\<open>80..BF\<close>.\<close>

definition cont :: "char \<Rightarrow> bool" where
  "cont c = (0x80 \<le> (of_char c :: nat) \<and> (of_char c :: nat) \<le> 0xBF)"

text \<open>
  The code points of a \<^verbatim>\<open>str\<close>, each as its bytes: a byte is grouped with the
  continuation bytes that follow it. \<^verbatim>\<open>len(s)\<close> is \<open>length (chars s)\<close>, \<^verbatim>\<open>s[i]\<close> is
  \<open>chars s ! i\<close> and \<^verbatim>\<open>s[1:]\<close> is \<open>concat (drop 1 (chars s))\<close>.
\<close>

fun chars :: "string \<Rightarrow> string list" where
  "chars [] = []"
| "chars (a # s) =
     (case chars s of
        [] \<Rightarrow> [[a]]
      | c # cs \<Rightarrow> if cont (hd c) then (a # c) # cs else [a] # c # cs)"

text \<open>
  \<^verbatim>\<open>bytes.decode()\<close> and \<^verbatim>\<open>bytes.decode('utf-8')\<close>, which are strict: the bytes must be
  well-formed UTF-8 (no stray or missing continuation byte, no overlong form, no
  surrogate, nothing above U+10FFFF), or UnicodeDecodeError is raised.
\<close>

fun utf8_valid :: "bytes \<Rightarrow> bool" where
  "utf8_valid [] = True"
| "utf8_valid (a # s) =
     (if (of_char a :: nat) < 0x80 then utf8_valid s
      else if 0xC2 \<le> (of_char a :: nat) \<and> (of_char a :: nat) \<le> 0xDF then
        (case s of b # s' \<Rightarrow> cont b \<and> utf8_valid s' | _ \<Rightarrow> False)
      else if 0xE0 \<le> (of_char a :: nat) \<and> (of_char a :: nat) \<le> 0xEF then
        (case s of
           b # c # s' \<Rightarrow>
             cont b \<and> cont c
             \<and> (if a = CHR 0xE0 then 0xA0 \<le> (of_char b :: nat) else True)
             \<and> (if a = CHR 0xED then (of_char b :: nat) \<le> 0x9F else True)
             \<and> utf8_valid s'
         | _ \<Rightarrow> False)
      else if 0xF0 \<le> (of_char a :: nat) \<and> (of_char a :: nat) \<le> 0xF4 then
        (case s of
           b # c # d # s' \<Rightarrow>
             cont b \<and> cont c \<and> cont d
             \<and> (if a = CHR 0xF0 then 0x90 \<le> (of_char b :: nat) else True)
             \<and> (if a = CHR 0xF4 then (of_char b :: nat) \<le> 0x8F else True)
             \<and> utf8_valid s'
         | _ \<Rightarrow> False)
      else False)"

definition bytes_decode :: "bytes \<Rightarrow> error + string" where
  "bytes_decode b = (if utf8_valid b then Inr b else Inl UnicodeDecodeError)"

text \<open>
  \<^verbatim>\<open>str.encode()\<close>: the UTF-8 bytes of the code points, UnicodeEncodeError when one of
  them is a surrogate (U+D800 to U+DFFF, the bytes \<^verbatim>\<open>ED A0..BF 80..BF\<close>).
\<close>

definition is_surrogate :: "string \<Rightarrow> bool" where
  "is_surrogate c =
     (case c of
        a # b # r \<Rightarrow> a = CHR 0xED \<and> 0xA0 \<le> (of_char b :: nat) \<and> (of_char b :: nat) \<le> 0xBF
      | _ \<Rightarrow> False)"

definition has_surrogate :: "string \<Rightarrow> bool" where
  "has_surrogate s = list_ex is_surrogate (chars s)"

definition str_encode :: "string \<Rightarrow> error + bytes" where
  "str_encode s = (if has_surrogate s then Inl UnicodeEncodeError else Inr s)"

text \<open>Whether every code point of a \<^verbatim>\<open>str\<close> is ASCII (\<^verbatim>\<open>str.isascii()\<close>).\<close>

definition isascii :: "string \<Rightarrow> bool" where
  "isascii s = list_all (\<lambda>c. (of_char c :: nat) < 0x80) s"

text \<open>
  The white space of \<^verbatim>\<open>str.strip()\<close>, \<^verbatim>\<open>str.lstrip()\<close> and \<^verbatim>\<open>str.isspace()\<close>: the code
  points U+0009 to U+000D, U+001C to U+0020, U+0085, U+00A0, U+1680, U+2000 to U+200A,
  U+2028, U+2029, U+202F, U+205F and U+3000.
\<close>

definition whitespace :: "string list" where
  "whitespace =
     [[CHR 0x09], [CHR 0x0A], [CHR 0x0B], [CHR 0x0C], [CHR 0x0D],
      [CHR 0x1C], [CHR 0x1D], [CHR 0x1E], [CHR 0x1F], [CHR 0x20],
      [CHR 0xC2, CHR 0x85], [CHR 0xC2, CHR 0xA0], [CHR 0xE1, CHR 0x9A, CHR 0x80],
      [CHR 0xE2, CHR 0x80, CHR 0x80], [CHR 0xE2, CHR 0x80, CHR 0x81], [CHR 0xE2, CHR 0x80, CHR 0x82],
      [CHR 0xE2, CHR 0x80, CHR 0x83], [CHR 0xE2, CHR 0x80, CHR 0x84], [CHR 0xE2, CHR 0x80, CHR 0x85],
      [CHR 0xE2, CHR 0x80, CHR 0x86], [CHR 0xE2, CHR 0x80, CHR 0x87], [CHR 0xE2, CHR 0x80, CHR 0x88],
      [CHR 0xE2, CHR 0x80, CHR 0x89], [CHR 0xE2, CHR 0x80, CHR 0x8A], [CHR 0xE2, CHR 0x80, CHR 0xA8],
      [CHR 0xE2, CHR 0x80, CHR 0xA9], [CHR 0xE2, CHR 0x80, CHR 0xAF], [CHR 0xE2, CHR 0x81, CHR 0x9F],
      [CHR 0xE3, CHR 0x80, CHR 0x80]]"

definition is_space :: "string \<Rightarrow> bool" where
  "is_space c = (c \<in> set whitespace)"

definition lstrip :: "string \<Rightarrow> string" where
  "lstrip s = concat (dropWhile is_space (chars s))"

definition strip :: "string \<Rightarrow> string" where
  "strip s = concat (rev (dropWhile is_space (rev (dropWhile is_space (chars s)))))"

subsection \<open>ASCII strings\<close>

definition ascii_lowercase :: string where
  "ascii_lowercase = ''abcdefghijklmnopqrstuvwxyz''"

definition ascii_uppercase :: string where
  "ascii_uppercase = ''ABCDEFGHIJKLMNOPQRSTUVWXYZ''"

definition digits :: string where
  "digits = ''0123456789''"

definition is_digit :: "char \<Rightarrow> bool" where
  "is_digit c = (c \<in> set digits)"

definition is_alpha :: "char \<Rightarrow> bool" where
  "is_alpha c = (c \<in> set (ascii_lowercase @ ascii_uppercase))"

text \<open>
  \<^verbatim>\<open>str.upper()\<close> and \<^verbatim>\<open>str.lower()\<close> of an ASCII string; the adapters that could
  apply them to other strings test \<open>isascii\<close> first.
\<close>

definition upper_char :: "char \<Rightarrow> char" where
  "upper_char c = (case map_of (zip ascii_lowercase ascii_uppercase) c of Some u \<Rightarrow> u | None \<Rightarrow> c)"

definition lower_char :: "char \<Rightarrow> char" where
  "lower_char c = (case map_of (zip ascii_uppercase ascii_lowercase) c of Some u \<Rightarrow> u | None \<Rightarrow> c)"

definition upper :: "string \<Rightarrow> string" where
  "upper s = map upper_char s"

definition lower :: "string \<Rightarrow> string" where
  "lower s = map lower_char s"

text \<open>\<^verbatim>\<open>x in s\<close> for strings: \<open>x\<close> is a substring of \<open>s\<close>.\<close>

fun is_prefix :: "string \<Rightarrow> string \<Rightarrow> bool" where
  "is_prefix [] s = True"
| "is_prefix (x # xs) [] = False"
| "is_prefix (x # xs) (y # ys) = (x = y \<and> is_prefix xs ys)"

fun substring :: "string \<Rightarrow> string \<Rightarrow> bool" where
  "substring x [] = (x = [])"
| "substring x (c # s) = (is_prefix x (c # s) \<or> substring x s)"

text \<open>\<^verbatim>\<open>s.split(c)\<close> and \<^verbatim>\<open>c.join(xs)\<close> for a one-character separator.\<close>

fun split_on :: "char \<Rightarrow> string \<Rightarrow> string list" where
  "split_on c [] = [[]]"
| "split_on c (x # xs) =
     (if x = c then [] # split_on c xs
      else (case split_on c xs of y # ys \<Rightarrow> (x # y) # ys | [] \<Rightarrow> [[x]]))"

fun join :: "char \<Rightarrow> string list \<Rightarrow> string" where
  "join c [] = []"
| "join c [x] = x"
| "join c (x # y # ys) = x @ c # join c (y # ys)"

text \<open>\<^verbatim>\<open>s.split(c, 1)\<close> read as a pair, when \<open>c\<close> occurs in \<open>s\<close>.\<close>

definition split1 :: "char \<Rightarrow> string \<Rightarrow> string \<times> string" where
  "split1 c s = (takeWhile (\<lambda>x. x \<noteq> c) s, drop 1 (dropWhile (\<lambda>x. x \<noteq> c) s))"

text \<open>\<^verbatim>\<open>str(n)\<close> and \<^verbatim>\<open>'{}'.format(n)\<close> for an integer.\<close>

fun str_nat :: "nat \<Rightarrow> string" where
  "str_nat n = (if n < 10 then [digits ! n] else str_nat (n div 10) @ [digits ! (n mod 10)])"

declare str_nat.simps [simp del]

definition str_int :: "int \<Rightarrow> string" where
  "str_int i = (if i < 0 then CHR ''-'' # str_nat (nat (- i)) else str_nat (nat i))"

definition str_opt_int :: "int option \<Rightarrow> string" where
  "str_opt_int x = (case x of None \<Rightarrow> ''None'' | Some i \<Rightarrow> str_int i)"

text \<open>
  \<^verbatim>\<open>int(s)\<close> on what the patterns \<^verbatim>\<open>[0-9]+\<close> and \<^verbatim>\<open>[0-9]*\<close> capture:
  ValueError on the empty string. Other strings do not reach it (and Python's limit on
  the number of digits is not modelled).
\<close>

definition digit_val :: "char \<Rightarrow> nat" where
  "digit_val c = length (takeWhile (\<lambda>d. d \<noteq> c) digits)"

definition nat_of_digits :: "string \<Rightarrow> nat" where
  "nat_of_digits s = foldl (\<lambda>a c. 10 * a + digit_val c) 0 s"

definition py_int :: "string \<Rightarrow> error + int" where
  "py_int s = (if s = [] then Inl ValueError
               else if list_all is_digit s then Inr (int (nat_of_digits s))
               else Inl Unmodelled)"

subsection \<open>urllib.parse.urlparse\<close>

text \<open>
  The six components of \<^verbatim>\<open>urllib.parse.urlparse(url)\<close>, after CPython 3.11's
  \<^verbatim>\<open>urlsplit\<close>, \<^verbatim>\<open>_splitnetloc\<close> and \<^verbatim>\<open>_splitparams\<close>. A network location with
  unbalanced brackets raises ValueError; one with both brackets is validated by the
  \<^verbatim>\<open>ipaddress\<close> module, and one with a non-ASCII character by \<^verbatim>\<open>_checknetloc\<close> with
  \<^verbatim>\<open>unicodedata\<close>: both are outside the model (\<open>Unmodelled\<close>).
\<close>

record ParseResult =
  scheme :: string
  netloc :: string
  path :: string
  params :: string
  query :: string
  fragment :: string

definition scheme_chars :: string where
  "scheme_chars = ascii_lowercase @ ascii_uppercase @ digits @ ''+-.''"

definition c0_control_or_space :: "char \<Rightarrow> bool" where
  "c0_control_or_space c = ((of_char c :: nat) \<le> 32)"

definition unsafe_url_byte :: "char \<Rightarrow> bool" where
  "unsafe_url_byte c = (c = CHR 0x09 \<or> c = CHR 0x0D \<or> c = CHR 0x0A)"

definition split_scheme :: "string \<Rightarrow> string \<times> string" where
  "split_scheme url =
     (let s = takeWhile (\<lambda>c. c \<noteq> CHR '':'') url in
      if CHR '':'' \<in> set url \<and> s \<noteq> [] \<and> is_alpha (hd url) \<and> list_all (\<lambda>c. c \<in> set scheme_chars) s
      then (lower s, drop (length s + 1) url)
      else ([], url))"

definition netloc_delim :: "char \<Rightarrow> bool" where
  "netloc_delim c = (c = CHR ''/'' \<or> c = CHR ''?'' \<or> c = CHR ''#'')"

definition splitnetloc :: "string \<Rightarrow> string \<times> string" where
  "splitnetloc url =
     (if take 2 url = ''//''
      then (takeWhile (\<lambda>c. \<not> netloc_delim c) (drop 2 url), dropWhile (\<lambda>c. \<not> netloc_delim c) (drop 2 url))
      else ([], url))"

definition uses_params :: "string list" where
  "uses_params = ['''', ''ftp'', ''hdl'', ''prospero'', ''http'', ''imap'', ''https'', ''shttp'',
     ''rtsp'', ''rtsps'', ''rtspu'', ''sip'', ''sips'', ''mms'', ''sftp'', ''tel'']"

definition splitparams :: "string \<Rightarrow> string \<times> string" where
  "splitparams url =
     (if CHR ''/'' \<in> set url then
        (let before = rev (dropWhile (\<lambda>c. c \<noteq> CHR ''/'') (rev url));
             after = rev (takeWhile (\<lambda>c. c \<noteq> CHR ''/'') (rev url))
         in if CHR '';'' \<in> set after
            then (before @ fst (split1 (CHR '';'') after), snd (split1 (CHR '';'') after))
            else (url, []))
      else split1 (CHR '';'') url)"

text \<open>
  The end of \<^verbatim>\<open>urlsplit\<close> and \<^verbatim>\<open>urlparse\<close>: what follows the network location is cut
  at the first \<^verbatim>\<open>#\<close> (the fragment), then at the first \<^verbatim>\<open>?\<close> (the query), and the
  parameters are taken off the path.
\<close>

definition split_tail :: "string \<Rightarrow> string \<Rightarrow> string \<Rightarrow> ParseResult" where
  "split_tail sch loc url3 =
     (let (url4, frag) = (if CHR ''#'' \<in> set url3 then split1 (CHR ''#'') url3 else (url3, []));
          (url5, qry) = (if CHR ''?'' \<in> set url4 then split1 (CHR ''?'') url4 else (url4, []));
          (url6, prm) = (if sch \<in> set uses_params \<and> CHR '';'' \<in> set url5 then splitparams url5 else (url5, []))
      in \<lparr>scheme = sch, netloc = loc, path = url6, params = prm, query = qry, fragment = frag\<rparr>)"

definition urlparse :: "string \<Rightarrow> error + ParseResult" where
  "urlparse url0 =
     (let url1 = filter (\<lambda>c. \<not> unsafe_url_byte c) (dropWhile c0_control_or_space url0);
          (sch, url2) = split_scheme url1;
          (loc, url3) = splitnetloc url2
      in if (CHR ''['' \<in> set loc \<and> CHR '']'' \<notin> set loc) \<or> (CHR '']'' \<in> set loc \<and> CHR ''['' \<notin> set loc)
         then Inl ValueError
         else if CHR ''['' \<in> set loc \<or> \<not> isascii loc then Inl Unmodelled
         else Inr (split_tail sch loc url3))"

text \<open>The test \<^verbatim>\<open>result.scheme in ('', 'http', 'https')\<close> every \<^verbatim>\<open>from_url\<close> starts with.\<close>

definition scheme_ok :: "ParseResult \<Rightarrow> bool" where
  "scheme_ok r = (scheme r \<in> set ['''', ''http'', ''https''])"

subsection \<open>The path helper\<close>

text \<open>\<^verbatim>\<open>posixpath.normpath\<close> of the standard library.\<close>

fun norm_comps :: "nat \<Rightarrow> string list \<Rightarrow> string list \<Rightarrow> string list" where
  "norm_comps i new [] = new"
| "norm_comps i new (x # comps) =
     (if x = [] \<or> x = ''.'' then norm_comps i new comps
      else if x \<noteq> ''..'' \<or> (i = 0 \<and> new = []) \<or> (new \<noteq> [] \<and> last new = ''..'')
      then norm_comps i (new @ [x]) comps
      else if new \<noteq> [] then norm_comps i (butlast new) comps
      else norm_comps i new comps)"

definition posixpath_normpath :: "string \<Rightarrow> string" where
  "posixpath_normpath p =
     (if p = [] then ''.''
      else
        (let i = (if is_prefix ''/'' p then (if is_prefix ''//'' p \<and> \<not> is_prefix ''///'' p then 2 else 1) else 0);
             q = replicate i (CHR ''/'') @ join (CHR ''/'') (norm_comps i [] (split_on (CHR ''/'') p))
         in if q = [] then ''.'' else q))"

text \<open>
  Modelled from the spec: \<^verbatim>\<open>utils.normpath\<close> (onlinejudge/_implementation/utils.py) is
  not under src/. The spec (4.1) has \<^verbatim>\<open>from_url\<close> match the parsed path against a path
  shape; the helper is taken to be POSIX path normalisation with a leading run of
  slashes collapsed to one.
\<close>

definition normpath :: "string \<Rightarrow> string" where
  "normpath p =
     (let q = posixpath_normpath p
      in if is_prefix ''//'' q then CHR ''/'' # dropWhile (\<lambda>c. c = CHR ''/'') q else q)"

subsection \<open>Pieces of the regular expressions\<close>

text \<open>
  Each pattern of the adapters is matched by \<^verbatim>\<open>re.match\<close> from the start of the path
  and is deterministic: a character class is followed by a character outside it. \<open>lit\<close>
  matches a literal, \<open>at_end\<close> is \<^verbatim>\<open>$\<close> (the end, or just before a final newline).
\<close>

definition lit :: "string \<Rightarrow> string \<Rightarrow> string option" where
  "lit p s = (if is_prefix p s then Some (drop (length p) s) else None)"

definition at_end :: "string \<Rightarrow> bool" where
  "at_end s = (s = [] \<or> s = [CHR 0x0A])"

definition word_char :: "char \<Rightarrow> bool" where
  "word_char c = (is_alpha c \<or> is_digit c \<or> c = CHR ''_'')"

definition slug_char :: "char \<Rightarrow> bool" where
  "slug_char c = (is_alpha c \<or> is_digit c \<or> c = CHR ''-'')"

section \<open>Codeforces\<close>

definition CODEFORCES_DOMAINS :: "string list" where
  "CODEFORCES_DOMAINS = [''codeforces.com'', ''m1.codeforces.com'', ''m2.codeforces.com'', ''m3.codeforces.com'']"

record CodeforcesContest =
  c_contest_id :: int
  c_kind :: string

text \<open>\<^verbatim>\<open>CodeforcesContest.__init__(contest_id, kind=None)\<close>.\<close>

definition CodeforcesContest_init :: "int \<Rightarrow> string option \<Rightarrow> error + CodeforcesContest" where
  "CodeforcesContest_init cid k =
     (if k \<notin> set [None, Some ''contest'', Some ''gym''] then Inl AssertionError
      else Inr \<lparr>c_contest_id = cid,
                c_kind = (case k of None \<Rightarrow> (if cid < 100000 then ''contest'' else ''gym'') | Some x \<Rightarrow> x)\<rparr>)"

definition CodeforcesContest_get_url :: "CodeforcesContest \<Rightarrow> string" where
  "CodeforcesContest_get_url self = ''https://codeforces.com/'' @ c_kind self @ ''/'' @ str_int (c_contest_id self)"

record CodeforcesProblem =
  contest_id :: int
  index :: string
  kind :: string
  course :: "int option"
  lesson :: "int option"
  step :: "int option"

text \<open>\<^verbatim>\<open>CodeforcesProblem.__init__(contest_id, index, kind=None, course=None, lesson=None, step=None)\<close>.\<close>

definition CodeforcesProblem_init ::
  "int \<Rightarrow> string \<Rightarrow> string option \<Rightarrow> int option \<Rightarrow> int option \<Rightarrow> int option \<Rightarrow> error + CodeforcesProblem" where
  "CodeforcesProblem_init cid idx k crs les stp =
     (if \<not> (1 \<le> length (chars idx) \<and> length (chars idx) \<le> 2) then Inl AssertionError
      else if \<not> substring (chars idx ! 0) ascii_uppercase then Inl AssertionError
      else if length (chars idx) = 2 \<and> \<not> substring (chars idx ! 1) digits then Inl AssertionError
      else if k \<notin> set [None, Some ''contest'', Some ''gym'', Some ''problemset'', Some ''edu''] then Inl AssertionError
      else Inr \<lparr>contest_id = cid, index = idx,
                kind = (case k of None \<Rightarrow> (if cid < 100000 then ''contest'' else ''gym'') | Some x \<Rightarrow> x),
                course = crs, lesson = les, step = stp\<rparr>)"

text \<open>\<^verbatim>\<open>table[self.kind].format(contest_id, index, course, lesson, step)\<close>.\<close>

definition CodeforcesProblem_get_url :: "CodeforcesProblem \<Rightarrow> error + string" where
  "CodeforcesProblem_get_url self =
     (if kind self = ''contest'' then
        Inr (''https://codeforces.com/contest/'' @ str_int (contest_id self) @ ''/problem/'' @ index self)
      else if kind self = ''problemset'' then
        Inr (''https://codeforces.com/problemset/problem/'' @ str_int (contest_id self) @ ''/'' @ index self)
      else if kind self = ''gym'' then
        Inr (''https://codeforces.com/gym/'' @ str_int (contest_id self) @ ''/problem/'' @ index self)
      else if kind self = ''edu'' then
        Inr (''https://codeforces.com/edu/course/'' @ str_opt_int (course self) @ ''/lesson/'' @ str_opt_int (lesson self)
             @ ''/'' @ str_opt_int (step self) @ ''/practice/contest/'' @ str_int (contest_id self)
             @ ''/problem/'' @ index self)
      else Inl KeyError)"


text \<open>
  \<^verbatim>\<open>CodeforcesContest.from_url\<close>. The patterns \<^verbatim>\<open>/contest/([0-9]+).*\<close> and
  \<^verbatim>\<open>/gym/([0-9]+).*\<close> are tried in this order on the normalised path.
\<close>

definition match_contest_prefix :: "string \<Rightarrow> string \<Rightarrow> string option" where
  "match_contest_prefix pre p =
     (case lit pre p of
        None \<Rightarrow> None
      | Some r \<Rightarrow> (if takeWhile is_digit r = [] then None else Some (takeWhile is_digit r)))"

definition CodeforcesContest_from_url :: "string \<Rightarrow> error + CodeforcesContest option" where
  "CodeforcesContest_from_url url =
     (case urlparse url of
        Inl e \<Rightarrow> Inl e
      | Inr result \<Rightarrow>
          if scheme_ok result \<and> netloc result \<in> set CODEFORCES_DOMAINS then
            (case match_contest_prefix ''/contest/'' (normpath (path result)) of
               Some ds \<Rightarrow>
                 (case py_int ds of Inl e \<Rightarrow> Inl e
                  | Inr n \<Rightarrow> map_sum id Some (CodeforcesContest_init n (Some ''contest'')))
             | None \<Rightarrow>
                 (case match_contest_prefix ''/gym/'' (normpath (path result)) of
                    Some ds \<Rightarrow>
                      (case py_int ds of Inl e \<Rightarrow> Inl e
                       | Inr n \<Rightarrow> map_sum id Some (CodeforcesContest_init n (Some ''gym'')))
                  | None \<Rightarrow> Inr None))
          else Inr None)"

text \<open>
  The index pattern \<^verbatim>\<open>(?P<index>0|[A-Za-z][1-9]?)$\<close>: the whole rest of the path is
  \<^verbatim>\<open>0\<close>, or a letter with at most one digit from 1 to 9.
\<close>

definition match_index :: "string \<Rightarrow> string option" where
  "match_index r =
     (case r of
        [] \<Rightarrow> None
      | c # rest \<Rightarrow>
          if c = CHR ''0'' \<and> at_end rest then Some ''0''
          else if is_alpha c then
            (case rest of
               [] \<Rightarrow> Some [c]
             | d # rest' \<Rightarrow>
                 if d \<in> set ''123456789'' \<and> at_end rest' then Some [c, d]
                 else if at_end rest then Some [c]
                 else None)
          else None)"

text \<open>
  The patterns of the kinds \<open>contest\<close>, \<open>problemset\<close> and \<open>gym\<close>:
  \<^verbatim>\<open>^PRE(?P<contest>[0-9]+)MID(?P<index>...)$\<close>, giving the contest digits and the index.
\<close>

definition match_problem :: "string \<Rightarrow> string \<Rightarrow> string \<Rightarrow> (string \<times> string) option" where
  "match_problem pre mid p =
     (case lit pre p of
        None \<Rightarrow> None
      | Some r \<Rightarrow>
          if takeWhile is_digit r = [] then None
          else
            (case lit mid (dropWhile is_digit r) of
               None \<Rightarrow> None
             | Some r' \<Rightarrow>
                 (case match_index r' of None \<Rightarrow> None | Some idx \<Rightarrow> Some (takeWhile is_digit r, idx))))"

text \<open>
  The pattern of the kind \<open>edu\<close>, whose four numbers are \<^verbatim>\<open>[0-9]*\<close> and may be empty:
  course, lesson, step, contest and index.
\<close>

definition match_edu :: "string \<Rightarrow> (string \<times> string \<times> string \<times> string \<times> string) option" where
  "match_edu p =
     (case lit ''/edu/course/'' p of None \<Rightarrow> None | Some r1 \<Rightarrow>
      (case lit ''/lesson/'' (dropWhile is_digit r1) of None \<Rightarrow> None | Some r2 \<Rightarrow>
      (case lit ''/'' (dropWhile is_digit r2) of None \<Rightarrow> None | Some r3 \<Rightarrow>
      (case lit ''/practice/contest/'' (dropWhile is_digit r3) of None \<Rightarrow> None | Some r4 \<Rightarrow>
      (case lit ''/problem/'' (dropWhile is_digit r4) of None \<Rightarrow> None | Some r5 \<Rightarrow>
      (case match_index r5 of None \<Rightarrow> None | Some idx \<Rightarrow>
         Some (takeWhile is_digit r1, takeWhile is_digit r2, takeWhile is_digit r3, takeWhile is_digit r4, idx)))))))"

text \<open>The index a match yields: \<^verbatim>\<open>'A'\<close> for \<^verbatim>\<open>'0'\<close>, else the upper-cased text.\<close>

definition index_of_match :: "string \<Rightarrow> string" where
  "index_of_match m = (if m = ''0'' then ''A'' else upper m)"

definition problem_of_match :: "string \<Rightarrow> string \<times> string \<Rightarrow> error + CodeforcesProblem option" where
  "problem_of_match k m =
     (case py_int (fst m) of
        Inl e \<Rightarrow> Inl e
      | Inr n \<Rightarrow> map_sum id Some (CodeforcesProblem_init n (index_of_match (snd m)) (Some k) None None None))"

definition problem_of_edu_match ::
  "string \<times> string \<times> string \<times> string \<times> string \<Rightarrow> error + CodeforcesProblem option" where
  "problem_of_edu_match m =
     (case m of (crs, les, stp, cs, idx) \<Rightarrow>
       (case py_int cs of Inl e \<Rightarrow> Inl e | Inr n \<Rightarrow>
       (case py_int crs of Inl e \<Rightarrow> Inl e | Inr c \<Rightarrow>
       (case py_int les of Inl e \<Rightarrow> Inl e | Inr l \<Rightarrow>
       (case py_int stp of Inl e \<Rightarrow> Inl e | Inr s \<Rightarrow>
          map_sum id Some (CodeforcesProblem_init n (index_of_match idx) (Some ''edu'') (Some c) (Some l) (Some s)))))))"

text \<open>\<^verbatim>\<open>CodeforcesProblem.from_url\<close>: the table is tried in its insertion order.\<close>

definition CodeforcesProblem_from_url :: "string \<Rightarrow> error + CodeforcesProblem option" where
  "CodeforcesProblem_from_url url =
     (case urlparse url of
        Inl e \<Rightarrow> Inl e
      | Inr result \<Rightarrow>
          if scheme_ok result \<and> netloc result \<in> set CODEFORCES_DOMAINS then
            (case match_problem ''/contest/'' ''/problem/'' (normpath (path result)) of
               Some m \<Rightarrow> problem_of_match ''contest'' m
             | None \<Rightarrow>
            (case match_problem ''/problemset/problem/'' ''/'' (normpath (path result)) of
               Some m \<Rightarrow> problem_of_match ''problemset'' m
             | None \<Rightarrow>
            (case match_problem ''/gym/'' ''/problem/'' (normpath (path result)) of
               Some m \<Rightarrow> problem_of_match ''gym'' m
             | None \<Rightarrow>
            (case match_edu (normpath (path result)) of
               Some m \<Rightarrow> problem_of_edu_match m
             | None \<Rightarrow> Inr None))))
          else Inr None)"

text \<open>The service handles have no field; \<^verbatim>\<open>from_url\<close> tests the scheme and the host.\<close>

definition CodeforcesService_get_url :: string where
  "CodeforcesService_get_url = ''https://codeforces.com/''"

definition CodeforcesService_from_url :: "string \<Rightarrow> error + unit option" where
  "CodeforcesService_from_url url =
     (case urlparse url of
        Inl e \<Rightarrow> Inl e
      | Inr result \<Rightarrow>
          if scheme_ok result \<and> netloc result \<in> set CODEFORCES_DOMAINS then Inr (Some ()) else Inr None)"

section \<open>Anarchy Golf\<close>

definition AnarchyGolfService_get_url :: string where
  "AnarchyGolfService_get_url = ''http://golf.shinh.org/''"

definition AnarchyGolfService_from_url :: "string \<Rightarrow> error + unit option" where
  "AnarchyGolfService_from_url url =
     (case urlparse url of
        Inl e \<Rightarrow> Inl e
      | Inr result \<Rightarrow>
          if scheme_ok result \<and> netloc result = ''golf.shinh.org'' then Inr (Some ()) else Inr None)"

record AnarchyGolfProblem =
  ag_problem_id :: string

definition AnarchyGolfProblem_get_url :: "AnarchyGolfProblem \<Rightarrow> string" where
  "AnarchyGolfProblem_get_url self = ''http://golf.shinh.org/p.rb?'' @ ag_problem_id self"

definition AnarchyGolfProblem_from_url :: "string \<Rightarrow> error + AnarchyGolfProblem option" where
  "AnarchyGolfProblem_from_url url =
     (case urlparse url of
        Inl e \<Rightarrow> Inl e
      | Inr result \<Rightarrow>
          if scheme_ok result \<and> netloc result = ''golf.shinh.org''
             \<and> normpath (path result) = ''/p.rb'' \<and> query result \<noteq> []
          then Inr (Some \<lparr>ag_problem_id = query result\<rparr>)
          else Inr None)"

section \<open>HackerRank\<close>

definition HackerRankService_get_url :: string where
  "HackerRankService_get_url = ''https://www.hackerrank.com/''"

definition HackerRankService_from_url :: "string \<Rightarrow> error + unit option" where
  "HackerRankService_from_url url =
     (case urlparse url of
        Inl e \<Rightarrow> Inl e
      | Inr result \<Rightarrow>
          if scheme_ok result \<and> netloc result \<in> set [''hackerrank.com'', ''www.hackerrank.com'']
          then Inr (Some ()) else Inr None)"

record HackerRankProblem =
  contest_slug :: string
  challenge_slug :: string


text \<open>The tail \<^verbatim>\<open>(/problem)?/?$\<close> of both HackerRank patterns.\<close>

definition match_problem_tail :: "string \<Rightarrow> bool" where
  "match_problem_tail r =
     (case lit ''/problem'' r of
        Some r1 \<Rightarrow>
          (case lit ''/'' r1 of Some r2 \<Rightarrow> at_end r2 \<or> at_end r1 | None \<Rightarrow> at_end r1)
      | None \<Rightarrow>
          (case lit ''/'' r of Some r2 \<Rightarrow> at_end r2 \<or> at_end r | None \<Rightarrow> at_end r))"

text \<open>\<^verbatim>\<open>^/contests/([0-9A-Za-z-]+)/challenges/([0-9A-Za-z-]+)(/problem)?/?$\<close>.\<close>

definition match_contests_challenges :: "string \<Rightarrow> (string \<times> string) option" where
  "match_contests_challenges p =
     (case lit ''/contests/'' p of None \<Rightarrow> None | Some r1 \<Rightarrow>
        if takeWhile slug_char r1 = [] then None
        else
          (case lit ''/challenges/'' (dropWhile slug_char r1) of None \<Rightarrow> None | Some r2 \<Rightarrow>
             if takeWhile slug_char r2 = [] then None
             else if match_problem_tail (dropWhile slug_char r2)
             then Some (takeWhile slug_char r1, takeWhile slug_char r2)
             else None))"

text \<open>\<^verbatim>\<open>^/challenges/([0-9A-Za-z-]+)(/problem)?/?$\<close>.\<close>

definition match_challenges :: "string \<Rightarrow> string option" where
  "match_challenges p =
     (case lit ''/challenges/'' p of None \<Rightarrow> None | Some r1 \<Rightarrow>
        if takeWhile slug_char r1 = [] then None
        else if match_problem_tail (dropWhile slug_char r1) then Some (takeWhile slug_char r1)
        else None)"

definition HackerRankProblem_from_url :: "string \<Rightarrow> error + HackerRankProblem option" where
  "HackerRankProblem_from_url url =
     (case urlparse url of
        Inl e \<Rightarrow> Inl e
      | Inr result \<Rightarrow>
          if scheme_ok result \<and> netloc result \<in> set [''hackerrank.com'', ''www.hackerrank.com''] then
            (case match_contests_challenges (normpath (path result)) of
               Some (a, b) \<Rightarrow> Inr (Some \<lparr>contest_slug = a, challenge_slug = b\<rparr>)
             | None \<Rightarrow>
                 (case match_challenges (normpath (path result)) of
                    Some b \<Rightarrow> Inr (Some \<lparr>contest_slug = ''master'', challenge_slug = b\<rparr>)
                  | None \<Rightarrow> Inr None))
          else Inr None)"


section \<open>JSON values\<close>

text \<open>
  What \<^verbatim>\<open>json.loads\<close> returns: \<open>JNull\<close> is Python's \<^verbatim>\<open>None\<close>, an object is a list of
  key and value pairs with distinct keys. Floating-point numbers are not modelled.
\<close>

datatype json =
    JNull
  | JBool bool
  | JInt int
  | JStr string
  | JArr "json list"
  | JObj "(string \<times> json) list"

text \<open>
  \<^verbatim>\<open>str(v)\<close> and \<^verbatim>\<open>'{}'.format(v)\<close>. The text of a list or of a dict is Python's
  \<^verbatim>\<open>repr\<close> of it, a function of the interpreter that is passed as \<open>container_repr\<close>.
\<close>

definition py_str :: "(json \<Rightarrow> string) \<Rightarrow> json \<Rightarrow> string" where
  "py_str container_repr v =
     (case v of
        JNull \<Rightarrow> ''None''
      | JBool b \<Rightarrow> (if b then ''True'' else ''False'')
      | JInt i \<Rightarrow> str_int i
      | JStr s \<Rightarrow> s
      | JArr xs \<Rightarrow> container_repr v
      | JObj kvs \<Rightarrow> container_repr v)"

text \<open>\<^verbatim>\<open>v[key]\<close> for a string key: only a dict can be subscripted by a string.\<close>

definition py_getitem :: "json \<Rightarrow> string \<Rightarrow> error + json" where
  "py_getitem v k =
     (case v of
        JObj kvs \<Rightarrow> (case map_of kvs k of None \<Rightarrow> Inl KeyError | Some x \<Rightarrow> Inr x)
      | _ \<Rightarrow> Inl TypeError)"

text \<open>
  \<^verbatim>\<open>for x in v\<close>: the elements of a list, the keys of a dict, the characters of a
  string; other values are not iterable.
\<close>

definition py_iter :: "json \<Rightarrow> error + json list" where
  "py_iter v =
     (case v of
        JArr xs \<Rightarrow> Inr xs
      | JObj kvs \<Rightarrow> Inr (map (\<lambda>kv. JStr (fst kv)) kvs)
      | JStr s \<Rightarrow> Inr (map JStr (chars s))
      | _ \<Rightarrow> Inl TypeError)"


section \<open>Aizu Online Judge\<close>

subsection \<open>urllib.parse.parse_qs\<close>

text \<open>
  \<^verbatim>\<open>urllib.parse.parse_qs(qs)\<close> with its defaults: fields are separated by \<^verbatim>\<open>&\<close>, a
  field with no value is dropped, \<^verbatim>\<open>+\<close> becomes a space and \<^verbatim>\<open>%xx\<close> the byte
  \<^verbatim>\<open>xx\<close>. Python then decodes each run of bytes as UTF-8 and replaces what is
  malformed: the model covers the queries whose escapes are ASCII bytes, which decode to
  themselves, and \<open>high_escape\<close> recognises the others.
\<close>

definition hexdig :: string where
  "hexdig = ''0123456789ABCDEFabcdef''"

definition hex_val :: "char \<Rightarrow> nat" where
  "hex_val c = (let i = length (takeWhile (\<lambda>d. d \<noteq> c) hexdig) in if i < 16 then i else i - 6)"

fun unquote :: "string \<Rightarrow> string" where
  "unquote (p # a # b # rest) =
     (if p = CHR ''%'' \<and> a \<in> set hexdig \<and> b \<in> set hexdig
      then char_of (16 * hex_val a + hex_val b) # unquote rest
      else p # unquote (a # b # rest))"
| "unquote s = s"

fun high_escape :: "string \<Rightarrow> bool" where
  "high_escape (p # a # b # rest) =
     ((p = CHR ''%'' \<and> a \<in> set hexdig \<and> b \<in> set hexdig \<and> 128 \<le> 16 * hex_val a + hex_val b)
      \<or> high_escape (a # b # rest))"
| "high_escape s = False"

definition unquote_plus :: "string \<Rightarrow> string" where
  "unquote_plus s = unquote (map (\<lambda>c. if c = CHR ''+'' then CHR '' '' else c) s)"

definition parse_qsl :: "string \<Rightarrow> (string \<times> string) list" where
  "parse_qsl qs =
     concat (map (\<lambda>name_value.
                    if name_value = [] \<or> snd (split1 (CHR ''='') name_value) = [] then []
                    else [(unquote_plus (fst (split1 (CHR ''='') name_value)),
                           unquote_plus (snd (split1 (CHR ''='') name_value)))])
                 (split_on (CHR ''&'') qs))"

text \<open>\<^verbatim>\<open>parse_qs(qs).get(name)\<close>: the values of the fields called \<open>name\<close>, \<open>[]\<close> for \<^verbatim>\<open>None\<close>.\<close>

definition parse_qs_get :: "string \<Rightarrow> string \<Rightarrow> string list" where
  "parse_qs_get qs name = map snd (filter (\<lambda>nv. fst nv = name) (parse_qsl qs))"

subsection \<open>Handles\<close>

definition AOJService_get_url :: string where
  "AOJService_get_url = ''http://judge.u-aizu.ac.jp/onlinejudge/''"

definition AOJService_from_url :: "string \<Rightarrow> error + unit option" where
  "AOJService_from_url url =
     (case urlparse url of
        Inl e \<Rightarrow> Inl e
      | Inr result \<Rightarrow>
          if scheme_ok result \<and> netloc result \<in> set [''judge.u-aizu.ac.jp'', ''onlinejudge.u-aizu.ac.jp'']
          then Inr (Some ()) else Inr None)"

text \<open>
  \<^verbatim>\<open>AOJProblem.problem_id\<close> has no declared type: \<^verbatim>\<open>from_url\<close> stores a string, an
  arena problem stores whatever the arena's JSON holds.
\<close>

record AOJProblem =
  aoj_problem_id :: json

definition AOJProblem_get_url :: "(json \<Rightarrow> string) \<Rightarrow> AOJProblem \<Rightarrow> string" where
  "AOJProblem_get_url container_repr self =
     ''http://judge.u-aizu.ac.jp/onlinejudge/description.jsp?id='' @ py_str container_repr (aoj_problem_id self)"

text \<open>One or more characters of a class, then the rest.\<close>

definition plus_class :: "(char \<Rightarrow> bool) \<Rightarrow> string \<Rightarrow> (string \<times> string) option" where
  "plus_class P s = (if takeWhile P s = [] then None else Some (takeWhile P s, dropWhile P s))"

definition alt :: "'a option \<Rightarrow> 'a option \<Rightarrow> 'a option" where
  "alt a b = (case a of Some x \<Rightarrow> Some x | None \<Rightarrow> b)"

text \<open>
  \<^verbatim>\<open>^/(challenges|courses)/(sources|library/\d+|lesson/\d+)/(\w+)/(\w+)/(\w+)$\<close>,
  giving group 5. In a \<^verbatim>\<open>str\<close> pattern \<^verbatim>\<open>\d\<close> and \<^verbatim>\<open>\w\<close> also match the digits and
  letters of Unicode; the two matchers are for ASCII paths, where they are
  \<^verbatim>\<open>[0-9]\<close> and \<^verbatim>\<open>[0-9A-Za-z_]\<close>.
\<close>

definition match_sources :: "string \<Rightarrow> string option" where
  "match_sources p =
     (case alt (lit ''/challenges/'' p) (lit ''/courses/'' p) of None \<Rightarrow> None | Some r1 \<Rightarrow>
      (case alt (lit ''sources'' r1)
             (alt (case lit ''library/'' r1 of None \<Rightarrow> None | Some r \<Rightarrow> map_option snd (plus_class is_digit r))
                  (case lit ''lesson/'' r1 of None \<Rightarrow> None | Some r \<Rightarrow> map_option snd (plus_class is_digit r)))
       of None \<Rightarrow> None | Some r2 \<Rightarrow>
      (case lit ''/'' r2 of None \<Rightarrow> None | Some r3 \<Rightarrow>
      (case plus_class word_char r3 of None \<Rightarrow> None | Some (w3, r4) \<Rightarrow>
      (case lit ''/'' r4 of None \<Rightarrow> None | Some r5 \<Rightarrow>
      (case plus_class word_char r5 of None \<Rightarrow> None | Some (w4, r6) \<Rightarrow>
      (case lit ''/'' r6 of None \<Rightarrow> None | Some r7 \<Rightarrow>
      (case plus_class word_char r7 of None \<Rightarrow> None | Some (w5, r8) \<Rightarrow>
         if at_end r8 then Some w5 else None))))))))"

text \<open>\<^verbatim>\<open>^/problems/(\w+)$\<close>.\<close>

definition match_problems :: "string \<Rightarrow> string option" where
  "match_problems p =
     (case lit ''/problems/'' p of None \<Rightarrow> None | Some r1 \<Rightarrow>
      (case plus_class word_char r1 of None \<Rightarrow> None | Some (w, r2) \<Rightarrow>
         if at_end r2 then Some w else None))"

text \<open>
  \<^verbatim>\<open>AOJProblem.from_url\<close>. The query is parsed first, then the three shapes are tried
  in the order of the source; a non-ASCII path reaches the two patterns only when the
  first shape does not apply, and is then outside the model.
\<close>

definition AOJProblem_from_url :: "string \<Rightarrow> error + AOJProblem option" where
  "AOJProblem_from_url url =
     (case urlparse url of
        Inl e \<Rightarrow> Inl e
      | Inr result \<Rightarrow>
          if high_escape (query result) then Inl Unmodelled
          else if scheme_ok result \<and> netloc result = ''judge.u-aizu.ac.jp''
             \<and> normpath (path result) = ''/onlinejudge/description.jsp''
             \<and> parse_qs_get (query result) ''id'' \<noteq> []
             \<and> length (parse_qs_get (query result) ''id'') = 1
          then Inr (Some \<lparr>aoj_problem_id = JStr (hd (parse_qs_get (query result) ''id''))\<rparr>)
          else if \<not> isascii (normpath (path result)) then Inl Unmodelled
          else
            (case match_sources (normpath (path result)) of
               Some n \<Rightarrow>
                 if scheme_ok result \<and> netloc result = ''onlinejudge.u-aizu.ac.jp''
                 then Inr (Some \<lparr>aoj_problem_id = JStr n\<rparr>)
                 else
                   (case match_problems (normpath (path result)) of
                      Some n' \<Rightarrow>
                        if scheme_ok result \<and> netloc result = ''onlinejudge.u-aizu.ac.jp''
                        then Inr (Some \<lparr>aoj_problem_id = JStr n'\<rparr>)
                        else Inr None
                    | None \<Rightarrow> Inr None)
             | None \<Rightarrow>
                 (case match_problems (normpath (path result)) of
                    Some n' \<Rightarrow>
                      if scheme_ok result \<and> netloc result = ''onlinejudge.u-aizu.ac.jp''
                      then Inr (Some \<lparr>aoj_problem_id = JStr n'\<rparr>)
                      else Inr None
                  | None \<Rightarrow> Inr None)))"

text \<open>
  An arena problem: the arena, the letter, and the memo slot \<^verbatim>\<open>_problem_id\<close>
  (\<open>JNull\<close> while unresolved).
\<close>

record AOJArenaProblem =
  arena_id :: string
  alphabet :: string
  memo_problem_id :: json

text \<open>
  \<^verbatim>\<open>AOJArenaProblem.__init__\<close>; the assertion is Python's substring test. In
  \<^verbatim>\<open>from_url\<close> the letter is \<^verbatim>\<open>fragment[2].upper()\<close>, modelled for an ASCII
  \<^verbatim>\<open>fragment[2]\<close>.
\<close>

definition AOJArenaProblem_init :: "string \<Rightarrow> string \<Rightarrow> error + AOJArenaProblem" where
  "AOJArenaProblem_init a l =
     (if \<not> substring l ascii_uppercase then Inl AssertionError
      else Inr \<lparr>arena_id = a, alphabet = l, memo_problem_id = JNull\<rparr>)"

definition AOJArenaProblem_get_url :: "AOJArenaProblem \<Rightarrow> string" where
  "AOJArenaProblem_get_url self =
     ''https://onlinejudge.u-aizu.ac.jp/services/room.html#'' @ arena_id self @ ''/problems/'' @ alphabet self"

definition AOJArenaProblem_from_url :: "string \<Rightarrow> error + AOJArenaProblem option" where
  "AOJArenaProblem_from_url url =
     (case urlparse url of
        Inl e \<Rightarrow> Inl e
      | Inr result \<Rightarrow>
          if scheme_ok result \<and> netloc result = ''onlinejudge.u-aizu.ac.jp''
             \<and> normpath (path result) = ''/services/room.html''
          then
            (case split_on (CHR ''/'') (fragment result) of
               [a, b, c] \<Rightarrow>
                 if b = ''problems'' then
                   (if isascii c then map_sum id Some (AOJArenaProblem_init a (upper c)) else Inl Unmodelled)
                 else Inr None
             | _ \<Rightarrow> Inr None)
          else Inr None)"


section \<open>The HTTP collaborator\<close>

text \<open>
  A \<^verbatim>\<open>requests.Session\<close> is known by its identity; \<^verbatim>\<open>session or
  utils.get_default_session()\<close> picks the default one when none is given.
\<close>

datatype session = DefaultSession | Session nat

definition resolve_session :: "session option \<Rightarrow> session" where
  "resolve_session s = (case s of None \<Rightarrow> DefaultSession | Some x \<Rightarrow> x)"

record http_request =
  req_verb :: string
  req_url :: string
  req_session :: session
  req_json :: "(string \<times> string) list"
  req_headers :: "(string \<times> string) list"

text \<open>
  The network: the requests sent so far (oldest first) and the server, which answers a
  request, given the earlier ones, with a response or with a failure of the transport.
\<close>

record network =
  sent :: "http_request list"
  server :: "http_request list \<Rightarrow> http_request \<Rightarrow> error + response"

text \<open>\<^verbatim>\<open>Response.raise_for_status()\<close> of the requests library.\<close>

definition raise_for_status :: "response \<Rightarrow> error + unit" where
  "raise_for_status resp =
     (if 400 \<le> status_code resp \<and> status_code resp < 600 then Inl (HTTPError resp) else Inr ())"

text \<open>
  Modelled from the spec: \<^verbatim>\<open>utils.request\<close> (onlinejudge/_implementation/utils.py) is
  not under src/. After the spec (5 and 7) every fetch goes through the HTTP
  collaborator, whose I/O failures and non-success statuses are the fetch errors: the
  request is sent through the session, and unless \<^verbatim>\<open>raise_for_status=False\<close> is
  passed a non-success status raises the response's own error.
\<close>

definition request :: "http_request \<Rightarrow> bool \<Rightarrow> network \<Rightarrow> (error + response) \<times> network" where
  "request rq check net =
     (case server net (sent net) rq of
        Inl e \<Rightarrow> (Inl e, net\<lparr>sent := sent net @ [rq]\<rparr>)
      | Inr resp \<Rightarrow>
          (if check then
             (case raise_for_status resp of
                Inl e \<Rightarrow> (Inl e, net\<lparr>sent := sent net @ [rq]\<rparr>)
              | Inr u \<Rightarrow> (Inr resp, net\<lparr>sent := sent net @ [rq]\<rparr>))
           else (Inr resp, net\<lparr>sent := sent net @ [rq]\<rparr>)))"

definition GET :: "string \<Rightarrow> session \<Rightarrow> http_request" where
  "GET url s = \<lparr>req_verb = ''GET'', req_url = url, req_session = s, req_json = [], req_headers = []\<rparr>"

section \<open>Documents and test cases\<close>

text \<open>
  A parsed document (bs4): a node is a string or a tag with its name, its attributes
  and its contents.
\<close>

datatype node = NavigableString string | Tag string "(string \<times> string) list" "node list"

text \<open>\<^verbatim>\<open>node.name\<close> (\<^verbatim>\<open>None\<close> for a string) and \<^verbatim>\<open>node.string\<close>.\<close>

fun node_name :: "node \<Rightarrow> string option" where
  "node_name (NavigableString s) = None"
| "node_name (Tag nm attrs cs) = Some nm"

fun node_string :: "node \<Rightarrow> string option" where
  "node_string (NavigableString s) = Some s"
| "node_string (Tag nm attrs []) = None"
| "node_string (Tag nm attrs [c]) = node_string c"
| "node_string (Tag nm attrs (c # d # cs)) = None"

text \<open>
  Every node of a document in document order, each with its previous siblings (nearest
  first) and its next siblings.
\<close>

fun walk :: "node list \<Rightarrow> node list \<Rightarrow> (node \<times> node list \<times> node list) list" where
  "walk prev [] = []"
| "walk prev (NavigableString s # rest) =
     (NavigableString s, prev, rest) # walk (NavigableString s # prev) rest"
| "walk prev (Tag nm attrs cs # rest) =
     (Tag nm attrs cs, prev, rest) # walk [] cs @ walk (Tag nm attrs cs # prev) rest"

text \<open>\<^verbatim>\<open>soup.find_all(name)\<close>, each tag with its siblings.\<close>

definition find_all :: "string \<Rightarrow> node list \<Rightarrow> (node \<times> node list \<times> node list) list" where
  "find_all nm doc = filter (\<lambda>x. node_name (fst x) = Some nm) (walk [] doc)"

record TestCase =
  tc_name :: string
  input_name :: string
  input_data :: bytes
  output_name :: string
  output_data :: bytes

text \<open>
  The functions the adapters call that are not under src/: \<^verbatim>\<open>json.loads\<close>, Python's
  \<^verbatim>\<open>repr\<close> of a list or dict (for \<open>py_str\<close>), the bs4
  parser (\<^verbatim>\<open>bs4.BeautifulSoup(text, utils.HTML_PARSER)\<close>, giving the document's
  top-level nodes), and the repository's helpers \<^verbatim>\<open>utils.parse_content\<close>,
  \<^verbatim>\<open>utils.textfile\<close>, \<^verbatim>\<open>utils.dos2unix\<close>, \<^verbatim>\<open>testcase_zipper.extract_from_zip\<close> and the
  \<^verbatim>\<open>SampleZipper\<close> (its fresh state, \<^verbatim>\<open>add\<close> and \<^verbatim>\<open>get\<close>). They are parameters of the
  model: a theorem about an adapter holds for every choice of them.
\<close>

record 'z externals =
  json_loads :: "string \<Rightarrow> error + json"
  container_repr :: "json \<Rightarrow> string"
  BeautifulSoup :: "string \<Rightarrow> node list"
  parse_content :: "node \<Rightarrow> string"
  textfile :: "string \<Rightarrow> string"
  dos2unix :: "string \<Rightarrow> string"
  extract_from_zip :: "bytes \<Rightarrow> string \<Rightarrow> error + TestCase list"
  SampleZipper :: 'z
  zipper_add :: "'z \<Rightarrow> bytes \<Rightarrow> string \<Rightarrow> 'z"
  zipper_get :: "'z \<Rightarrow> TestCase list"


section \<open>HackerRank: test cases and submission\<close>

text \<open>The URL \<^verbatim>\<open>download_system_cases\<close> fetches.\<close>

definition download_testcases_url :: "HackerRankProblem \<Rightarrow> string" where
  "download_testcases_url self =
     ''https://www.hackerrank.com/rest/contests/'' @ contest_slug self @ ''/challenges/''
       @ challenge_slug self @ ''/download_testcases''"

text \<open>
  \<^verbatim>\<open>HackerRankProblem.download_system_cases\<close>. On a 403 the body is decoded for the
  debug log, \<^verbatim>\<open>logger.debug('HTML: %s', resp.content.decode())\<close>, before the error is
  raised: the argument is evaluated whatever the log level, and a body that is not UTF-8
  raises UnicodeDecodeError there.
\<close>

definition HackerRankProblem_download_system_cases ::
  "'z externals \<Rightarrow> HackerRankProblem \<Rightarrow> session option \<Rightarrow> network \<Rightarrow> (error + TestCase list) \<times> network" where
  "HackerRankProblem_download_system_cases ext self session net =
     (case request (GET (download_testcases_url self) (resolve_session session)) False net of
        (Inl e, net') \<Rightarrow> (Inl e, net')
      | (Inr resp, net') \<Rightarrow>
          if status_code resp = 403
          then
            (case bytes_decode (resp_content resp) of
               Inl e \<Rightarrow> (Inl e, net')
             | Inr html \<Rightarrow> (Inl (SampleParseError ''Access Denied. Did you set your User-Agent?''), net'))
          else
            (case raise_for_status resp of
               Inl e \<Rightarrow> (Inl e, net')
             | Inr u \<Rightarrow> (extract_from_zip ext (resp_content resp) ''%eput/%eput%s.txt'', net')))"

text \<open>\<^verbatim>\<open>HackerRankProblem.download_sample_cases\<close>.\<close>

definition HackerRankProblem_download_sample_cases ::
  "'z externals \<Rightarrow> HackerRankProblem \<Rightarrow> session option \<Rightarrow> network \<Rightarrow> (error + TestCase list) \<times> network" where
  "HackerRankProblem_download_sample_cases ext self session net =
     HackerRankProblem_download_system_cases ext self session net"

text \<open>\<^verbatim>\<open>HackerRankService.is_logged_in\<close>.\<close>

definition HackerRankService_is_logged_in :: "session option \<Rightarrow> network \<Rightarrow> (error + bool) \<times> network" where
  "HackerRankService_is_logged_in session net =
     (case request (GET ''https://www.hackerrank.com/auth/login'' (resolve_session session)) True net of
        (Inl e, net') \<Rightarrow> (Inl e, net')
      | (Inr resp, net') \<Rightarrow> (Inr (\<not> substring ''/auth'' (resp_url resp)), net'))"








section \<open>Codeforces: submission\<close>


section \<open>Anarchy Golf: sample cases\<close>

text \<open>
  The loop \<^verbatim>\<open>while nxt and nxt.string.strip() == '': nxt = nxt.next_sibling\<close> over the
  next siblings of the heading: the node it stops at (\<open>None\<close> past the last sibling). A
  tag whose \<^verbatim>\<open>.string\<close> is \<^verbatim>\<open>None\<close> raises AttributeError; an empty string is false
  and stops the loop.
\<close>

fun skip_blank :: "node list \<Rightarrow> error + node option" where
  "skip_blank [] = Inr None"
| "skip_blank (NavigableString s # ns) =
     (if s = [] then Inr (Some (NavigableString s))
      else if strip s = [] then skip_blank ns
      else Inr (Some (NavigableString s)))"
| "skip_blank (Tag nm attrs cs # ns) =
     (case node_string (Tag nm attrs cs) of
        None \<Rightarrow> Inl AttributeError
      | Some s \<Rightarrow> if strip s = [] then skip_blank ns else Inr (Some (Tag nm attrs cs)))"

text \<open>
  A sibling the loop skips: a non-empty string of white space, or a tag whose string is
  white space.
\<close>

fun blank_node :: "node \<Rightarrow> bool" where
  "blank_node (NavigableString s) = (s \<noteq> [] \<and> strip s = [])"
| "blank_node (Tag nm attrs cs) =
     (case node_string (Tag nm attrs cs) of None \<Rightarrow> False | Some s \<Rightarrow> strip s = [])"

text \<open>
  What follows the loop: \<^verbatim>\<open>if nxt.name == 'pre': s = utils.dos2unix(nxt.string[1:])\<close>,
  \<^verbatim>\<open>elif nxt.name == 'p': s = ''\<close> and then \<^verbatim>\<open>return s, name\<close>, where \<open>s\<close> is unbound
  if neither branch ran. The slice drops the first code point.
\<close>

definition sample_text :: "'z externals \<Rightarrow> node option \<Rightarrow> error + string" where
  "sample_text ext nxt =
     (case nxt of
        None \<Rightarrow> Inl AttributeError
      | Some n \<Rightarrow>
          if node_name n = Some ''pre'' then
            (case node_string n of None \<Rightarrow> Inl TypeError | Some s \<Rightarrow> Inr (dos2unix ext (concat (drop 1 (chars s)))))
          else if node_name n = Some ''p'' then Inr []
          else Inl UnboundLocalError)"

text \<open>
  \<^verbatim>\<open>AnarchyGolfProblem._parse_sample_tag(tag)\<close>, the tag given with its next siblings.
  When \<^verbatim>\<open>tag.contents[0]\<close> is itself a tag, \<^verbatim>\<open>':' in name\<close> looks for the string
  \<^verbatim>\<open>':'\<close> among its contents and the slice that follows is a TypeError; otherwise such a
  name is not one of the two headings. \<open>heading_name\<close> is the name cut at its first colon,
  \<^verbatim>\<open>name[:name.find(':')]\<close>.
\<close>

definition heading_name :: "string \<Rightarrow> string" where
  "heading_name name0 = (if CHR '':'' \<in> set name0 then takeWhile (\<lambda>c. c \<noteq> CHR '':'') name0 else name0)"

definition parse_sample_tag :: "'z externals \<Rightarrow> node \<Rightarrow> node list \<Rightarrow> error + (string \<times> string) option" where
  "parse_sample_tag ext tag nexts =
     (case tag of
        NavigableString s \<Rightarrow> Inl AssertionError
      | Tag nm attrs cs \<Rightarrow>
          if nm \<noteq> ''h2'' then Inl AssertionError
          else
            (case cs of
               [] \<Rightarrow> Inl IndexError
             | Tag nm' attrs' cs' # rest \<Rightarrow>
                 if NavigableString '':'' \<in> set cs' then Inl TypeError else Inr None
             | NavigableString name0 # rest \<Rightarrow>
                 if heading_name name0 \<in> set [''Sample input'', ''Sample output'']
                 then
                   (case skip_blank nexts of
                      Inl e \<Rightarrow> Inl e
                    | Inr nxt \<Rightarrow>
                        (case sample_text ext nxt of
                           Inl e \<Rightarrow> Inl e
                         | Inr s \<Rightarrow>
                             Inr (Some (s, heading_name name0))))
                 else Inr None))"

text \<open>
  The loop of \<^verbatim>\<open>AnarchyGolfProblem.download_sample_cases\<close> over the \<^verbatim>\<open>h2\<close> tags: each
  parsed heading is added to the zipper, \<^verbatim>\<open>samples.add(s.encode(), name)\<close>.
\<close>

fun add_samples :: "'z externals \<Rightarrow> (node \<times> node list \<times> node list) list \<Rightarrow> 'z \<Rightarrow> error + 'z" where
  "add_samples ext [] z = Inr z"
| "add_samples ext (h2 # rest) z =
     (case parse_sample_tag ext (fst h2) (snd (snd h2)) of
        Inl e \<Rightarrow> Inl e
      | Inr None \<Rightarrow> add_samples ext rest z
      | Inr (Some it) \<Rightarrow>
          (case str_encode (fst it) of
             Inl e \<Rightarrow> Inl e
           | Inr b \<Rightarrow> add_samples ext rest (zipper_add ext z b (snd it))))"

definition AnarchyGolfProblem_download_sample_cases ::
  "'z externals \<Rightarrow> AnarchyGolfProblem \<Rightarrow> session option \<Rightarrow> network \<Rightarrow> (error + TestCase list) \<times> network" where
  "AnarchyGolfProblem_download_sample_cases ext self session net =
     (case request (GET (AnarchyGolfProblem_get_url self) (resolve_session session)) True net of
        (Inl e, net') \<Rightarrow> (Inl e, net')
      | (Inr resp, net') \<Rightarrow>
          (case add_samples ext (find_all ''h2'' (BeautifulSoup ext (resp_text resp))) (SampleZipper ext) of
             Inl e \<Rightarrow> (Inl e, net')
           | Inr z \<Rightarrow> (Inr (zipper_get ext z), net')))"


section \<open>Aizu Online Judge: test cases\<close>

text \<open>\<^verbatim>\<open>v.encode()\<close>: only a string has the method, which can itself fail.\<close>

definition py_encode :: "json \<Rightarrow> error + bytes" where
  "py_encode v = (case v of JStr s \<Rightarrow> str_encode s | _ \<Rightarrow> Inl AttributeError)"

text \<open>\<^verbatim>\<open>sample[key].encode()\<close>.\<close>

definition encoded_member :: "json \<Rightarrow> string \<Rightarrow> error + bytes" where
  "encoded_member sample k = (case py_getitem sample k of Inl e \<Rightarrow> Inl e | Inr v \<Rightarrow> py_encode v)"

text \<open>
  One sample of the official API, \<^verbatim>\<open>TestCase('sample-{}'.format(i + 1),
  str(sample['serial']), sample['in'].encode(), str(sample['serial']),
  sample['out'].encode())\<close>, the arguments evaluated from left to right.
\<close>

definition sample_of_json :: "'z externals \<Rightarrow> nat \<Rightarrow> json \<Rightarrow> error + TestCase" where
  "sample_of_json ext i sample =
     (case py_getitem sample ''serial'' of Inl e \<Rightarrow> Inl e | Inr serial \<Rightarrow>
      (case encoded_member sample ''in'' of Inl e \<Rightarrow> Inl e | Inr i_bytes \<Rightarrow>
      (case encoded_member sample ''out'' of Inl e \<Rightarrow> Inl e | Inr o_bytes \<Rightarrow>
         Inr \<lparr>tc_name = ''sample-'' @ str_nat (i + 1),
              input_name = py_str (container_repr ext) serial, input_data = i_bytes,
              output_name = py_str (container_repr ext) serial, output_data = o_bytes\<rparr>)))"

text \<open>\<^verbatim>\<open>for i, sample in enumerate(...): samples += [TestCase(...)]\<close>, from index \<open>i\<close> on.\<close>

fun samples_of_json :: "'z externals \<Rightarrow> nat \<Rightarrow> json list \<Rightarrow> error + TestCase list" where
  "samples_of_json ext i [] = Inr []"
| "samples_of_json ext i (sample # rest) =
     (case sample_of_json ext i sample of
        Inl e \<Rightarrow> Inl e
      | Inr t \<Rightarrow> (case samples_of_json ext (i + 1) rest of Inl e \<Rightarrow> Inl e | Inr ts \<Rightarrow> Inr (t # ts)))"

text \<open>
  The HTML fallback. \<^verbatim>\<open>pre.find_previous_sibling()\<close> is the nearest previous sibling
  that is a tag; the heading counts when it is an \<^verbatim>\<open>h3\<close> whose string holds one of
  the expected labels (the first two are the Japanese labels, three code points each).
\<close>

definition expected_strings :: "string list" where
  "expected_strings =
     [[CHR 0xE5, CHR 0x85, CHR 0xA5, CHR 0xE5, CHR 0x8A, CHR 0x9B, CHR 0xE4, CHR 0xBE, CHR 0x8B],
      [CHR 0xE5, CHR 0x87, CHR 0xBA, CHR 0xE5, CHR 0x8A, CHR 0x9B, CHR 0xE4, CHR 0xBE, CHR 0x8B],
      ''Sample Input'', ''Sample Output'']"

definition find_previous_sibling :: "node list \<Rightarrow> node option" where
  "find_previous_sibling prev = List.find (\<lambda>n. node_name n \<noteq> None) prev"

text \<open>The label under which a \<^verbatim>\<open>pre\<close> is added, if it is.\<close>

definition sample_heading :: "node list \<Rightarrow> string option" where
  "sample_heading prev =
     (case find_previous_sibling prev of
        None \<Rightarrow> None
      | Some tag \<Rightarrow>
          if node_name tag = Some ''h3'' then
            (case node_string tag of
               None \<Rightarrow> None
             | Some s \<Rightarrow> if s \<noteq> [] \<and> list_ex (\<lambda>e. substring e s) expected_strings then Some s else None)
          else None)"

text \<open>
  The loop over the \<^verbatim>\<open>pre\<close> tags:
  \<^verbatim>\<open>s = utils.textfile(utils.parse_content(pre).lstrip()); zipper.add(s.encode(), tag.string)\<close>.
  \<open>pre_text\<close> is the \<open>s\<close> of a \<^verbatim>\<open>pre\<close>.
\<close>

definition pre_text :: "'z externals \<Rightarrow> node \<Rightarrow> string" where
  "pre_text ext pre = textfile ext (lstrip (parse_content ext pre))"

fun add_pres :: "'z externals \<Rightarrow> (node \<times> node list \<times> node list) list \<Rightarrow> 'z \<Rightarrow> error + 'z" where
  "add_pres ext [] z = Inr z"
| "add_pres ext (pre # rest) z =
     (case sample_heading (fst (snd pre)) of
        None \<Rightarrow> add_pres ext rest z
      | Some label \<Rightarrow>
          (case str_encode (pre_text ext (fst pre)) of
             Inl e \<Rightarrow> Inl e
           | Inr b \<Rightarrow> add_pres ext rest (zipper_add ext z b label)))"


text \<open>
  The fallback of \<^verbatim>\<open>AOJProblem.download_sample_cases\<close>, from the parsed answer of the
  description API; a \<^verbatim>\<open>html\<close> member that is not a string is outside the model.
\<close>

definition samples_of_description :: "'z externals \<Rightarrow> json \<Rightarrow> error + TestCase list" where
  "samples_of_description ext descr =
     (case py_getitem descr ''html'' of
        Inl e \<Rightarrow> Inl e
      | Inr (JStr html) \<Rightarrow>
          (case add_pres ext (find_all ''pre'' (BeautifulSoup ext html)) (SampleZipper ext) of
             Inl e \<Rightarrow> Inl e
           | Inr z \<Rightarrow> Inr (zipper_get ext z))
      | Inr other \<Rightarrow> Inl Unmodelled)"

text \<open>The two URLs \<^verbatim>\<open>AOJProblem.download_sample_cases\<close> fetches.\<close>

definition samples_url :: "string \<Rightarrow> string" where
  "samples_url pid = ''https://judgedat.u-aizu.ac.jp/testcases/samples/'' @ pid"

definition description_url :: "string \<Rightarrow> string" where
  "description_url pid = ''https://judgeapi.u-aizu.ac.jp/resources/descriptions/ja/'' @ pid"

text \<open>\<^verbatim>\<open>AOJProblem.download_sample_cases\<close>.\<close>

definition AOJProblem_download_sample_cases ::
  "'z externals \<Rightarrow> AOJProblem \<Rightarrow> session option \<Rightarrow> network \<Rightarrow> (error + TestCase list) \<times> network" where
  "AOJProblem_download_sample_cases ext self session net =
     (let pid = py_str (container_repr ext) (aoj_problem_id self) in
     (case request (GET (samples_url pid) (resolve_session session)) True net of
        (Inl e, net1) \<Rightarrow> (Inl e, net1)
      | (Inr resp, net1) \<Rightarrow>
     (case json_loads ext (resp_text resp) of
        Inl e \<Rightarrow> (Inl e, net1)
      | Inr data \<Rightarrow>
     (case py_iter data of
        Inl e \<Rightarrow> (Inl e, net1)
      | Inr items \<Rightarrow>
     (case samples_of_json ext 0 items of
        Inl e \<Rightarrow> (Inl e, net1)
      | Inr samples \<Rightarrow>
          if samples \<noteq> [] then (Inr samples, net1)
          else
            (case request (GET (description_url pid) (resolve_session session)) True net1 of
               (Inl e, net2) \<Rightarrow> (Inl e, net2)
             | (Inr resp', net2) \<Rightarrow>
                 (case json_loads ext (resp_text resp') of
                    Inl e \<Rightarrow> (Inl e, net2)
                  | Inr descr \<Rightarrow> (samples_of_description ext descr, net2))))))))"

text \<open>
  One system case of \<^verbatim>\<open>AOJProblem.download_system_cases\<close>: two fetches, then
  \<^verbatim>\<open>TestCase(header['name'], header['name'], resp_in.content, header['name'],
  resp_out.content)\<close>; a name that is not a string is outside the model.
\<close>

definition system_case ::
  "'z externals \<Rightarrow> string \<Rightarrow> session \<Rightarrow> json \<Rightarrow> network \<Rightarrow> (error + TestCase) \<times> network" where
  "system_case ext pid s header net =
     (case py_getitem header ''serial'' of Inl e \<Rightarrow> (Inl e, net) | Inr serial \<Rightarrow>
     (let ser = py_str (container_repr ext) serial in
     (case request (GET (''https://judgedat.u-aizu.ac.jp/testcases/'' @ pid @ ''/'' @ ser @ ''/in'') s) True net of
        (Inl e, net1) \<Rightarrow> (Inl e, net1)
      | (Inr resp_in, net1) \<Rightarrow>
     (case request (GET (''https://judgedat.u-aizu.ac.jp/testcases/'' @ pid @ ''/'' @ ser @ ''/out'') s) True net1 of
        (Inl e, net2) \<Rightarrow> (Inl e, net2)
      | (Inr resp_out, net2) \<Rightarrow>
     (case py_getitem header ''name'' of
        Inl e \<Rightarrow> (Inl e, net2)
      | Inr (JStr nm) \<Rightarrow>
          (Inr \<lparr>tc_name = nm, input_name = nm, input_data = resp_content resp_in,
                output_name = nm, output_data = resp_content resp_out\<rparr>, net2)
      | Inr other \<Rightarrow> (Inl Unmodelled, net2))))))"

fun system_cases ::
  "'z externals \<Rightarrow> string \<Rightarrow> session \<Rightarrow> json list \<Rightarrow> network \<Rightarrow> (error + TestCase list) \<times> network" where
  "system_cases ext pid s [] net = (Inr [], net)"
| "system_cases ext pid s (header # rest) net =
     (case system_case ext pid s header net of
        (Inl e, net1) \<Rightarrow> (Inl e, net1)
      | (Inr t, net1) \<Rightarrow>
          (case system_cases ext pid s rest net1 of
             (Inl e, net2) \<Rightarrow> (Inl e, net2)
           | (Inr ts, net2) \<Rightarrow> (Inr (t # ts), net2)))"

text \<open>\<^verbatim>\<open>AOJProblem.download_system_cases\<close>.\<close>

definition AOJProblem_download_system_cases ::
  "'z externals \<Rightarrow> AOJProblem \<Rightarrow> session option \<Rightarrow> network \<Rightarrow> (error + TestCase list) \<times> network" where
  "AOJProblem_download_system_cases ext self session net =
     (let pid = py_str (container_repr ext) (aoj_problem_id self) in
     (case request (GET (''https://judgedat.u-aizu.ac.jp/testcases/'' @ pid @ ''/header'') (resolve_session session)) True net of
        (Inl e, net1) \<Rightarrow> (Inl e, net1)
      | (Inr resp, net1) \<Rightarrow>
     (case json_loads ext (resp_text resp) of
        Inl e \<Rightarrow> (Inl e, net1)
      | Inr header \<Rightarrow>
     (case py_getitem header ''headers'' of
        Inl e \<Rightarrow> (Inl e, net1)
      | Inr hs \<Rightarrow>
     (case py_iter hs of
        Inl e \<Rightarrow> (Inl e, net1)
      | Inr items \<Rightarrow> system_cases ext pid (resolve_session session) items net1)))))"

subsection \<open>Arena problems\<close>

text \<open>
  The loop of \<^verbatim>\<open>get_problem_id\<close>: the \<^verbatim>\<open>problemId\<close> of the first problem whose
  \<^verbatim>\<open>id\<close> is the letter, \<open>None\<close> when the loop ends without one.
\<close>

fun find_problem :: "string \<Rightarrow> json list \<Rightarrow> error + json option" where
  "find_problem a [] = Inr None"
| "find_problem a (problem # rest) =
     (case py_getitem problem ''id'' of
        Inl e \<Rightarrow> Inl e
      | Inr v \<Rightarrow>
          if v = JStr a then
            (case py_getitem problem ''problemId'' of Inl e \<Rightarrow> Inl e | Inr pid \<Rightarrow> Inr (Some pid))
          else find_problem a rest)"

text \<open>
  \<^verbatim>\<open>AOJArenaProblem.get_problem_id(session=session)\<close>: the result, the handle (whose
  memo slot the call may fill) and the network.
\<close>

definition get_problem_id ::
  "'z externals \<Rightarrow> AOJArenaProblem \<Rightarrow> session option \<Rightarrow> network
     \<Rightarrow> (error + json) \<times> AOJArenaProblem \<times> network" where
  "get_problem_id ext self session net =
     (if memo_problem_id self = JNull then
        (case request (GET (''https://judgeapi.u-aizu.ac.jp/arenas/'' @ arena_id self @ ''/problems'')
                           (resolve_session session)) True net of
           (Inl e, net') \<Rightarrow> (Inl e, self, net')
         | (Inr resp, net') \<Rightarrow>
             (case json_loads ext (resp_text resp) of
                Inl e \<Rightarrow> (Inl e, self, net')
              | Inr problems \<Rightarrow>
                  (case py_iter problems of
                     Inl e \<Rightarrow> (Inl e, self, net')
                   | Inr items \<Rightarrow>
                       (case find_problem (alphabet self) items of
                          Inl e \<Rightarrow> (Inl e, self, net')
                        | Inr None \<Rightarrow> (Inr (memo_problem_id self), self, net')
                        | Inr (Some pid) \<Rightarrow> (Inr pid, self\<lparr>memo_problem_id := pid\<rparr>, net')))))
      else (Inr (memo_problem_id self), self, net))"

text \<open>
  \<^verbatim>\<open>AOJArenaProblem.download_sample_cases\<close> and \<^verbatim>\<open>download_system_cases\<close>:
  \<^verbatim>\<open>self.get_problem_id()\<close> is called without the session, the download with it.
\<close>

definition AOJArenaProblem_download_sample_cases ::
  "'z externals \<Rightarrow> AOJArenaProblem \<Rightarrow> session option \<Rightarrow> network
     \<Rightarrow> (error + TestCase list) \<times> AOJArenaProblem \<times> network" where
  "AOJArenaProblem_download_sample_cases ext self session net =
     (case get_problem_id ext self None net of
        (Inl e, self', net') \<Rightarrow> (Inl e, self', net')
      | (Inr pid, self', net') \<Rightarrow>
          (case AOJProblem_download_sample_cases ext \<lparr>aoj_problem_id = pid\<rparr> session net' of
             (r, net'') \<Rightarrow> (r, self', net'')))"

definition AOJArenaProblem_download_system_cases ::
  "'z externals \<Rightarrow> AOJArenaProblem \<Rightarrow> session option \<Rightarrow> network
     \<Rightarrow> (error + TestCase list) \<times> AOJArenaProblem \<times> network" where
  "AOJArenaProblem_download_system_cases ext self session net =
     (case get_problem_id ext self None net of
        (Inl e, self', net') \<Rightarrow> (Inl e, self', net')
      | (Inr pid, self', net') \<Rightarrow>
          (case AOJProblem_download_system_cases ext \<lparr>aoj_problem_id = pid\<rparr> session net' of
             (r, net'') \<Rightarrow> (r, self', net'')))"


section \<open>Concrete collaborators\<close>

text \<open>
  Instances of the parameters, to run the adapters on concrete inputs. The zipper
  records the fragments and pairs them in arrival order, a fragment left over being
  dropped; \<open>textfile_nl\<close> appends a newline to a text that does not end with one;
  \<open>plain_text\<close> is the string of a node, empty when it has none.
\<close>

fun pair_up :: "nat \<Rightarrow> (bytes \<times> string) list \<Rightarrow> TestCase list" where
  "pair_up i (a # b # rest) =
     \<lparr>tc_name = ''sample-'' @ str_nat (i + 1), input_name = snd a, input_data = fst a,
      output_name = snd b, output_data = fst b\<rparr> # pair_up (i + 1) rest"
| "pair_up i rest = []"

definition textfile_nl :: "string \<Rightarrow> string" where
  "textfile_nl s = (if s \<noteq> [] \<and> last s = CHR 0x0A then s else s @ [CHR 0x0A])"

definition plain_text :: "node \<Rightarrow> string" where
  "plain_text n = (case node_string n of None \<Rightarrow> [] | Some s \<Rightarrow> s)"

text \<open>
  The collaborators over a table of JSON texts and a table of HTML texts: a text
  outside the first table does not parse, one outside the second is an empty document.
  The text of a list or dict is left as \<^verbatim>\<open>...\<close>.
\<close>

definition table_externals ::
  "(string \<times> json) list \<Rightarrow> (string \<times> node list) list \<Rightarrow> (bytes \<times> string) list externals" where
  "table_externals jsons htmls =
     \<lparr>json_loads = (\<lambda>s. case map_of jsons s of None \<Rightarrow> Inl JSONDecodeError | Some v \<Rightarrow> Inr v),
      container_repr = (\<lambda>v. ''...''),
      BeautifulSoup = (\<lambda>s. case map_of htmls s of None \<Rightarrow> [] | Some d \<Rightarrow> d),
      parse_content = plain_text,
      textfile = textfile_nl,
      dos2unix = (\<lambda>s. s),
      extract_from_zip = (\<lambda>b f. Inr []),
      SampleZipper = [],
      zipper_add = (\<lambda>z c n. z @ [(c, n)]),
      zipper_get = pair_up 0\<rparr>"

text \<open>
  A network whose server answers from a table of URLs, whatever was sent before: the
  final URL (another one after a redirect), the status and the body, a UTF-8 text that
  is also the body as text; a URL outside the table is a failure of the transport.
\<close>

definition table_network :: "(string \<times> string \<times> nat \<times> bytes) list \<Rightarrow> network" where
  "table_network pages =
     \<lparr>sent = [],
      server = (\<lambda>earlier rq.
        case map_of pages (req_url rq) of
          None \<Rightarrow> Inl (ConnectionError (req_url rq))
        | Some page \<Rightarrow>
            Inr \<lparr>resp_url = fst page, status_code = fst (snd page), resp_content = snd (snd page),
                 resp_text = snd (snd page)\<rparr>)\<rparr>"





text \<open>
  A page of Anarchy Golf whose sample input is the empty string:
  \<^verbatim>\<open><h2>Sample input:</h2> <p>*NOTHING*</p><h2>Sample output:</h2><pre>\nHello</pre>\<close>.
\<close>

definition nothing_page :: "node list" where
  "nothing_page =
     [Tag ''h2'' [] [NavigableString ''Sample input:''],
      NavigableString '' '',
      Tag ''p'' [] [NavigableString ''*NOTHING*''],
      Tag ''h2'' [] [NavigableString ''Sample output:''],
      Tag ''pre'' [] [NavigableString (CHR 0x0A # ''Hello'')]]"

text \<open>
  The same page with an empty paragraph:
  \<^verbatim>\<open><h2>Sample input:</h2><p></p><h2>Sample output:</h2><pre>\nHello</pre>\<close>.
\<close>

definition empty_paragraph_page :: "node list" where
  "empty_paragraph_page =
     [Tag ''h2'' [] [NavigableString ''Sample input:''],
      Tag ''p'' [] [],
      Tag ''h2'' [] [NavigableString ''Sample output:''],
      Tag ''pre'' [] [NavigableString (CHR 0x0A # ''Hello'')]]"

text \<open>
  An arena of Aizu Online Judge with the problems A and B, as the arena API lists them.
\<close>

definition arena_externals :: "(bytes \<times> string) list externals" where
  "arena_externals =
     table_externals
       [(''arena'', JArr [JObj [(''id'', JStr ''A''), (''problemId'', JStr ''2881'')],
                          JObj [(''id'', JStr ''B''), (''problemId'', JStr ''2882'')]])]
       []"

definition arena_network :: network where
  "arena_network =
     table_network
       [(''https://judgeapi.u-aizu.ac.jp/arenas/RitsCamp19Day2/problems'',
         ''https://judgeapi.u-aizu.ac.jp/arenas/RitsCamp19Day2/problems'', 200, ''arena'')]"







section \<open>Shapes of identities\<close>

text \<open>
  The conditions under which an identity is read back from its canonical URL:
  \<open>free_of bad s\<close> says that no character of \<open>bad\<close> occurs in \<open>s\<close>; \<open>unsafe_bytes\<close> are
  the tab, the carriage return and the newline that \<^verbatim>\<open>urlparse\<close> removes.
\<close>

definition free_of :: "string \<Rightarrow> string \<Rightarrow> bool" where
  "free_of bad s = list_all (\<lambda>c. c \<notin> set bad) s"

definition unsafe_bytes :: string where
  "unsafe_bytes = [CHR 0x09, CHR 0x0D, CHR 0x0A]"

text \<open>
  The indices that the assertions of \<^verbatim>\<open>CodeforcesProblem.__init__\<close> let through: a capital
  letter, alone or followed by one digit.
\<close>

definition accepted_index :: "string \<Rightarrow> bool" where
  "accepted_index idx =
     (case idx of
        [c] \<Rightarrow> c \<in> set ascii_uppercase
      | [c, d] \<Rightarrow> c \<in> set ascii_uppercase \<and> d \<in> set digits
      | _ \<Rightarrow> False)"

text \<open>An index as the pattern of \<^verbatim>\<open>CodeforcesProblem.from_url\<close> yields it: a capital
  letter, then at most one digit from 1 to 9.\<close>

definition canonical_index :: "string \<Rightarrow> bool" where
  "canonical_index idx =
     (case idx of
        [c] \<Rightarrow> c \<in> set ascii_uppercase
      | [c, d] \<Rightarrow> c \<in> set ascii_uppercase \<and> d \<in> set ''123456789''
      | _ \<Rightarrow> False)"

text \<open>A slug of HackerRank: one or more of the characters \<^verbatim>\<open>[0-9A-Za-z-]\<close>.\<close>

definition slug :: "string \<Rightarrow> bool" where
  "slug s = (s \<noteq> [] \<and> list_all slug_char s)"


section \<open>Properties\<close>

lemma str_nat_small: "n < 10 \<Longrightarrow> str_nat n = [digits ! n]"
  by (simp add: str_nat.simps)

subsection \<open>Helper facts\<close>


lemma request_server: "server (snd (request rq c net)) = server net"
  by (simp add: request_def split: sum.splits)

lemma request_checked:
  "fst (request rq True net) =
     (case server net (sent net) rq of
        Inl e \<Rightarrow> Inl e
      | Inr resp \<Rightarrow> (case raise_for_status resp of Inl e \<Rightarrow> Inl e | Inr u \<Rightarrow> Inr resp))"
  by (simp add: request_def split: sum.splits)

lemma is_logged_in_server: "server (snd (HackerRankService_is_logged_in s net)) = server net"
  by (simp add: HackerRankService_is_logged_in_def request_def split: sum.splits)

lemma is_logged_in_fst:
  "fst (HackerRankService_is_logged_in s net) =
     (case fst (request (GET ''https://www.hackerrank.com/auth/login'' (resolve_session s)) True net) of
        Inl e \<Rightarrow> Inl e
      | Inr resp \<Rightarrow> Inr (\<not> substring ''/auth'' (resp_url resp)))"
  by (simp add: HackerRankService_is_logged_in_def split: prod.splits sum.splits)

lemma table_network_server:
  "server (table_network pages) earlier rq =
     (case map_of pages (req_url rq) of
        None \<Rightarrow> Inl (ConnectionError (req_url rq))
      | Some page \<Rightarrow> Inr \<lparr>resp_url = fst page, status_code = fst (snd page), resp_content = snd (snd page),
                          resp_text = snd (snd page)\<rparr>)"
  by (simp add: table_network_def)



lemma skip_blank_blanks: "list_all blank_node blanks \<Longrightarrow> skip_blank (blanks @ rest) = skip_blank rest"
proof (induction blanks)
  case Nil
  then show ?case by simp
next
  case (Cons n ns)
  then show ?case by (cases n) (auto split: option.splits)
qed


lemma request_sent: "snd (request rq c net) = net\<lparr>sent := sent net @ [rq]\<rparr>"
  by (simp add: request_def split: sum.splits)

lemma get_problem_id_memoized:
  "memo_problem_id self \<noteq> JNull \<Longrightarrow> get_problem_id ext self session net = (Inr (memo_problem_id self), self, net)"
  by (simp add: get_problem_id_def)

lemma get_problem_id_fills:
  "get_problem_id ext self session net = (Inr pid, self', net') \<Longrightarrow> pid \<noteq> JNull
     \<Longrightarrow> self' = self\<lparr>memo_problem_id := pid\<rparr>"
  by (auto simp add: get_problem_id_def split: if_splits prod.splits sum.splits option.splits)

subsection \<open>Code points and the index of a Codeforces problem\<close>

lemma chars_concat: "concat (chars s) = s"
  by (induction s) (auto split: list.splits)

lemma chars_groups: "c \<in> set (chars s) \<Longrightarrow> c \<noteq> [] \<and> list_all cont (tl c)"
proof (induction s arbitrary: c)
  case Nil
  then show ?case by simp
next
  case (Cons a s)
  show ?case
  proof (cases "chars s")
    case Nil
    then show ?thesis using Cons.prems by simp
  next
    case (Cons g gs)
    have g: "g \<noteq> [] \<and> list_all cont (tl g)"
      using Cons.IH [of g] Cons by simp
    have gs: "\<And>x. x \<in> set gs \<Longrightarrow> x \<noteq> [] \<and> list_all cont (tl x)"
      using Cons.IH Cons by simp
    show ?thesis
    proof (cases "cont (hd g)")
      case True
      then have "list_all cont g" using g by (cases g) auto
      then show ?thesis using Cons.prems Cons True g gs by auto
    next
      case False
      then show ?thesis using Cons.prems Cons g gs by auto
    qed
  qed
qed

lemma is_prefix_set: "is_prefix x s \<Longrightarrow> set x \<subseteq> set s"
  by (induction x s rule: is_prefix.induct) auto

lemma substring_set: "substring x s \<Longrightarrow> set x \<subseteq> set s"
proof (induction s)
  case Nil
  then show ?case by simp
next
  case (Cons a s)
  from Cons.prems have "is_prefix x (a # s) \<or> substring x s" by simp
  then show ?case
  proof
    assume "is_prefix x (a # s)"
    then show ?thesis by (rule is_prefix_set)
  next
    assume "substring x s"
    then have "set x \<subseteq> set s" by (rule Cons.IH)
    then show ?thesis by auto
  qed
qed

lemma substring_single: "substring [c] s = (c \<in> set s)"
  by (induction s) auto

lemma ascii_not_cont: "c \<in> set (ascii_uppercase @ digits) \<Longrightarrow> \<not> cont c"
  by (auto simp add: ascii_uppercase_def digits_def cont_def)

lemma code_point_of_class:
  assumes "c \<in> set (chars s)" and "substring c A" and "set A \<subseteq> set (ascii_uppercase @ digits)"
  shows "\<exists>a. c = [a] \<and> a \<in> set A"
proof -
  from chars_groups [OF assms(1)] obtain a r where c: "c = a # r" and r: "list_all cont r"
    by (cases c) auto
  have "set c \<subseteq> set A" using assms(2) by (rule substring_set)
  then have "\<forall>x \<in> set r. \<not> cont x" using c assms(3) ascii_not_cont by auto
  then have "r = []" using r by (cases r) auto
  then show ?thesis using c \<open>set c \<subseteq> set A\<close> by simp
qed

lemma chars_one: "chars [c] = [[c]]"
  by simp

lemma chars_two: "\<not> cont d \<Longrightarrow> chars [c, d] = [[c], [d]]"
  by simp

lemma accepted_index_init:
  assumes "accepted_index idx"
  shows "CodeforcesProblem_init cid idx None crs les stp
           = Inr \<lparr>contest_id = cid, index = idx, kind = (if cid < 100000 then ''contest'' else ''gym''),
                  course = crs, lesson = les, step = stp\<rparr>"
proof -
  have k: "None \<in> set [None, Some ''contest'', Some ''gym'', Some ''problemset'', Some ''edu'']"
    by simp
  from assms consider c where "idx = [c]" "c \<in> set ascii_uppercase"
    | c d where "idx = [c, d]" "c \<in> set ascii_uppercase" "d \<in> set digits"
    by (auto simp add: accepted_index_def split: list.splits)
  then show ?thesis
  proof cases
    case 1
    then show ?thesis using k
      by (simp add: CodeforcesProblem_init_def substring_single del: set_simps)
  next
    case 2
    then have "\<not> cont d" using ascii_not_cont [of d] by simp
    then show ?thesis using 2 k
      by (simp add: CodeforcesProblem_init_def substring_single del: set_simps)
  qed
qed

lemma rejected_index_init:
  assumes "\<not> accepted_index idx"
  shows "CodeforcesProblem_init cid idx k crs les stp = Inl AssertionError"
proof (rule ccontr)
  assume n: "CodeforcesProblem_init cid idx k crs les stp \<noteq> Inl AssertionError"
  then have len: "1 \<le> length (chars idx) \<and> length (chars idx) \<le> 2"
    and up: "substring (chars idx ! 0) ascii_uppercase"
    and dg: "length (chars idx) = 2 \<longrightarrow> substring (chars idx ! 1) digits"
    by (auto simp add: CodeforcesProblem_init_def split: if_splits)
  from len consider a where "chars idx = [a]" | a b where "chars idx = [a, b]"
    by (cases "chars idx"; cases "tl (chars idx)"; cases "tl (tl (chars idx))") auto
  then show False
  proof cases
    case 1
    then have "a \<in> set (chars idx)" by simp
    from code_point_of_class [OF this, of ascii_uppercase] up 1
    obtain c where "a = [c]" "c \<in> set ascii_uppercase" by auto
    moreover have "idx = a" using chars_concat [of idx] 1 by simp
    ultimately show False using assms by (simp add: accepted_index_def)
  next
    case 2
    then have "a \<in> set (chars idx)" "b \<in> set (chars idx)" by simp_all
    from code_point_of_class [OF this(1), of ascii_uppercase] up 2
    obtain c where c: "a = [c]" "c \<in> set ascii_uppercase" by auto
    from code_point_of_class [OF \<open>b \<in> set (chars idx)\<close>, of digits] dg 2
    obtain d where d: "b = [d]" "d \<in> set digits" by auto
    have "idx = a @ b" using chars_concat [of idx] 2 by simp
    then show False using assms c d by (simp add: accepted_index_def)
  qed
qed

subsection \<open>The samples of Aizu Online Judge\<close>




subsection \<open>Codeforces kinds\<close>

text \<open>
  C9. A Codeforces contest or problem constructed without a kind gets the kind
  \<open>contest\<close> when its contest id is below 100000 and \<open>gym\<close> otherwise, and the URL that
  \<open>get_url\<close> produces embeds exactly that kind. The constructor of a contest always
  succeeds; the constructor of a problem succeeds exactly on an accepted index (a capital
  letter, alone or followed by a digit) and fails with an assertion on any other.
\<close>

theorem kind_inferred_from_contest_id:
  "CodeforcesContest_init cid None
     = Inr \<lparr>c_contest_id = cid, c_kind = (if cid < 100000 then ''contest'' else ''gym'')\<rparr>
   \<and> CodeforcesContest_get_url \<lparr>c_contest_id = cid, c_kind = (if cid < 100000 then ''contest'' else ''gym'')\<rparr>
       = ''https://codeforces.com/'' @ (if cid < 100000 then ''contest'' else ''gym'') @ ''/'' @ str_int cid
   \<and> CodeforcesProblem_init cid idx None crs les stp
       = (if accepted_index idx
          then Inr \<lparr>contest_id = cid, index = idx, kind = (if cid < 100000 then ''contest'' else ''gym''),
                    course = crs, lesson = les, step = stp\<rparr>
          else Inl AssertionError)
   \<and> CodeforcesProblem_get_url
         \<lparr>contest_id = cid, index = idx, kind = (if cid < 100000 then ''contest'' else ''gym''),
          course = crs, lesson = les, step = stp\<rparr>
       = Inr (''https://codeforces.com/'' @ (if cid < 100000 then ''contest'' else ''gym'') @ ''/''
              @ str_int cid @ ''/problem/'' @ idx)"
proof (intro conjI)
  show "CodeforcesContest_init cid None
     = Inr \<lparr>c_contest_id = cid, c_kind = (if cid < 100000 then ''contest'' else ''gym'')\<rparr>"
    by (simp add: CodeforcesContest_init_def)
next
  show "CodeforcesContest_get_url \<lparr>c_contest_id = cid, c_kind = (if cid < 100000 then ''contest'' else ''gym'')\<rparr>
       = ''https://codeforces.com/'' @ (if cid < 100000 then ''contest'' else ''gym'') @ ''/'' @ str_int cid"
    by (simp add: CodeforcesContest_get_url_def)
next
  show "CodeforcesProblem_init cid idx None crs les stp
       = (if accepted_index idx
          then Inr \<lparr>contest_id = cid, index = idx, kind = (if cid < 100000 then ''contest'' else ''gym''),
                    course = crs, lesson = les, step = stp\<rparr>
          else Inl AssertionError)"
    using accepted_index_init [of idx cid crs les stp] rejected_index_init [of idx cid None crs les stp]
    by (cases "accepted_index idx") simp_all
next
  show "CodeforcesProblem_get_url
         \<lparr>contest_id = cid, index = idx, kind = (if cid < 100000 then ''contest'' else ''gym''),
          course = crs, lesson = les, step = stp\<rparr>
       = Inr (''https://codeforces.com/'' @ (if cid < 100000 then ''contest'' else ''gym'') @ ''/''
              @ str_int cid @ ''/problem/'' @ idx)"
    by (simp add: CodeforcesProblem_get_url_def)
qed

text \<open>
  The theorem at the contests 538 and 101021, at the problems H of 538 and A1 of 101021,
  and at the index \<open>h\<close>, which the constructor refuses.
\<close>

theorem kind_inferred_from_contest_id_witness:
  "CodeforcesContest_init 538 None = Inr \<lparr>c_contest_id = 538, c_kind = ''contest''\<rparr>
   \<and> CodeforcesContest_get_url \<lparr>c_contest_id = 538, c_kind = ''contest''\<rparr> = ''https://codeforces.com/contest/538''
   \<and> CodeforcesContest_init 101021 None = Inr \<lparr>c_contest_id = 101021, c_kind = ''gym''\<rparr>
   \<and> CodeforcesContest_get_url \<lparr>c_contest_id = 101021, c_kind = ''gym''\<rparr> = ''https://codeforces.com/gym/101021''
   \<and> CodeforcesProblem_init 538 ''H'' None None None None
       = Inr \<lparr>contest_id = 538, index = ''H'', kind = ''contest'', course = None, lesson = None, step = None\<rparr>
   \<and> CodeforcesProblem_get_url \<lparr>contest_id = 538, index = ''H'', kind = ''contest'', course = None, lesson = None, step = None\<rparr>
       = Inr ''https://codeforces.com/contest/538/problem/H''
   \<and> CodeforcesProblem_init 101021 ''A1'' None None None None
       = Inr \<lparr>contest_id = 101021, index = ''A1'', kind = ''gym'', course = None, lesson = None, step = None\<rparr>
   \<and> CodeforcesProblem_get_url \<lparr>contest_id = 101021, index = ''A1'', kind = ''gym'', course = None, lesson = None, step = None\<rparr>
       = Inr ''https://codeforces.com/gym/101021/problem/A1''
   \<and> CodeforcesProblem_init 538 ''h'' None None None None = Inl AssertionError"
proof -
  have s1: "str_int 538 = ''538''"
    by (simp add: str_int_def str_nat.simps digits_def)
  have s2: "str_int 101021 = ''101021''"
    by (simp add: str_int_def str_nat.simps digits_def)
  have a1: "accepted_index ''H''"
    by (simp add: accepted_index_def ascii_uppercase_def)
  have a2: "accepted_index ''A1''"
    by (simp add: accepted_index_def ascii_uppercase_def digits_def)
  have a3: "\<not> accepted_index ''h''"
    by (simp add: accepted_index_def ascii_uppercase_def)
  have c1: "(538 :: int) < 100000" and c2: "\<not> (101021 :: int) < 100000"
    by simp_all
  from kind_inferred_from_contest_id [of 538 "''H''" None None None]
  have 1: "CodeforcesContest_init 538 None = Inr \<lparr>c_contest_id = 538, c_kind = ''contest''\<rparr>
     \<and> CodeforcesContest_get_url \<lparr>c_contest_id = 538, c_kind = ''contest''\<rparr> = ''https://codeforces.com/contest/538''
     \<and> CodeforcesProblem_init 538 ''H'' None None None None
         = Inr \<lparr>contest_id = 538, index = ''H'', kind = ''contest'', course = None, lesson = None, step = None\<rparr>
     \<and> CodeforcesProblem_get_url \<lparr>contest_id = 538, index = ''H'', kind = ''contest'', course = None, lesson = None, step = None\<rparr>
         = Inr ''https://codeforces.com/contest/538/problem/H''"
    by (simp only: a1 c1 s1 if_True append.simps)
  from kind_inferred_from_contest_id [of 101021 "''A1''" None None None]
  have 2: "CodeforcesContest_init 101021 None = Inr \<lparr>c_contest_id = 101021, c_kind = ''gym''\<rparr>
     \<and> CodeforcesContest_get_url \<lparr>c_contest_id = 101021, c_kind = ''gym''\<rparr> = ''https://codeforces.com/gym/101021''
     \<and> CodeforcesProblem_init 101021 ''A1'' None None None None
         = Inr \<lparr>contest_id = 101021, index = ''A1'', kind = ''gym'', course = None, lesson = None, step = None\<rparr>
     \<and> CodeforcesProblem_get_url \<lparr>contest_id = 101021, index = ''A1'', kind = ''gym'', course = None, lesson = None, step = None\<rparr>
         = Inr ''https://codeforces.com/gym/101021/problem/A1''"
    by (simp only: a2 c2 s2 if_True if_False append.simps)
  from kind_inferred_from_contest_id [of 538 "''h''" None None None]
  have 3: "CodeforcesProblem_init 538 ''h'' None None None None = Inl AssertionError"
    by (simp only: a3 if_False)
  show ?thesis using 1 2 3 by (intro conjI) simp_all
qed


subsection \<open>HackerRank downloads\<close>

text \<open>
  C3 (as amended). For a HackerRank problem the sample download is not a code path of
  its own: \<open>download_sample_cases\<close> delegates to \<open>download_system_cases\<close>, so on every
  problem, session and network both return the same result (the same test cases or the
  same error) and leave the same network behind.
\<close>

theorem hackerrank_sample_download_delegates:
  "HackerRankProblem_download_sample_cases ext self session net
     = HackerRankProblem_download_system_cases ext self session net"
  by (simp add: HackerRankProblem_download_sample_cases_def)

theorem hackerrank_sample_download_delegates_witness:
  "HackerRankProblem_download_sample_cases (table_externals [] [])
       \<lparr>contest_slug = ''hourrank-1'', challenge_slug = ''beautiful-array''\<rparr> None (table_network [])
     = HackerRankProblem_download_system_cases (table_externals [] [])
       \<lparr>contest_slug = ''hourrank-1'', challenge_slug = ''beautiful-array''\<rparr> None (table_network [])"
  using hackerrank_sample_download_delegates
    [of "table_externals [] []" "\<lparr>contest_slug = ''hourrank-1'', challenge_slug = ''beautiful-array''\<rparr>" None "table_network []"]
  by simp

text \<open>
  The claim as stated asks for an input on which the two downloads differ; there is
  none.
\<close>

theorem hackerrank_no_distinct_sample_path:
  "\<not> (\<exists>(ext :: (bytes \<times> string) list externals) self session net.
        HackerRankProblem_download_sample_cases ext self session net
          \<noteq> HackerRankProblem_download_system_cases ext self session net)"
  unfolding HackerRankProblem_download_sample_cases_def by simp





subsection \<open>Submission\<close>





subsection \<open>Anarchy Golf samples\<close>

text \<open>
  C5. A heading \<open>Sample input\<close> or \<open>Sample output\<close> followed by a \<open>p\<close> tag is to yield the
  fragment with the empty content. The adapter does so when the \<open>p\<close> holds one string
  that is not blank (\<^verbatim>\<open><p>*NOTHING*</p>\<close>): the download returns the sample with the
  empty input. It does not when the \<open>p\<close> is empty, \<^verbatim>\<open><p></p>\<close>, the plainest markup with
  no text: the loop over the siblings asks for \<^verbatim>\<open>nxt.string.strip()\<close>, the string of
  an empty tag is \<^verbatim>\<open>None\<close>, and the parse and the download end in \<open>AttributeError\<close>
  with no fragment added. A \<open>p\<close> that holds only white space is taken for a blank
  sibling and skipped, and with nothing after it the parse ends in \<open>AttributeError\<close> too.
\<close>

theorem empty_paragraph_raises:
  "parse_sample_tag ext (Tag ''h2'' [] [NavigableString ''Sample input:''])
       [Tag ''p'' [] [], Tag ''h2'' [] [NavigableString ''Sample output:''],
        Tag ''pre'' [] [NavigableString (CHR 0x0A # ''Hello'')]]
     = Inl AttributeError
   \<and> parse_sample_tag ext (Tag ''h2'' [] [NavigableString ''Sample input:''])
       [Tag ''p'' [] [NavigableString '' '']]
     = Inl AttributeError
   \<and> fst (AnarchyGolfProblem_download_sample_cases (table_externals [] [(''doc'', empty_paragraph_page)])
            \<lparr>ag_problem_id = ''hello''\<rparr> None
            (table_network [(''http://golf.shinh.org/p.rb?hello'', ''http://golf.shinh.org/p.rb?hello'', 200, ''doc'')]))
     = Inl AttributeError
   \<and> parse_sample_tag ext (Tag ''h2'' [] [NavigableString ''Sample input:''])
       [NavigableString '' '', Tag ''p'' [] [NavigableString ''*NOTHING*''],
        Tag ''h2'' [] [NavigableString ''Sample output:''], Tag ''pre'' [] [NavigableString (CHR 0x0A # ''Hello'')]]
     = Inr (Some ([], ''Sample input''))
   \<and> fst (AnarchyGolfProblem_download_sample_cases (table_externals [] [(''doc'', nothing_page)])
            \<lparr>ag_problem_id = ''hello''\<rparr> None
            (table_network [(''http://golf.shinh.org/p.rb?hello'', ''http://golf.shinh.org/p.rb?hello'', 200, ''doc'')]))
     = Inr [\<lparr>tc_name = ''sample-1'', input_name = ''Sample input'', input_data = [],
             output_name = ''Sample output'', output_data = ''Hello''\<rparr>]"
proof (intro conjI)
  show "parse_sample_tag ext (Tag ''h2'' [] [NavigableString ''Sample input:''])
       [Tag ''p'' [] [], Tag ''h2'' [] [NavigableString ''Sample output:''],
        Tag ''pre'' [] [NavigableString (CHR 0x0A # ''Hello'')]]
     = Inl AttributeError"
    by (simp add: parse_sample_tag_def heading_name_def)
next
  have b: "strip '' '' = []"
    by code_simp
  show "parse_sample_tag ext (Tag ''h2'' [] [NavigableString ''Sample input:''])
       [Tag ''p'' [] [NavigableString '' '']]
     = Inl AttributeError"
    by (simp add: parse_sample_tag_def heading_name_def sample_text_def b)
next
  show "fst (AnarchyGolfProblem_download_sample_cases (table_externals [] [(''doc'', empty_paragraph_page)])
            \<lparr>ag_problem_id = ''hello''\<rparr> None
            (table_network [(''http://golf.shinh.org/p.rb?hello'', ''http://golf.shinh.org/p.rb?hello'', 200, ''doc'')]))
     = Inl AttributeError"
    by code_simp
next
  have b: "strip '' '' = []" and n: "strip ''*NOTHING*'' \<noteq> []"
    by code_simp+
  show "parse_sample_tag ext (Tag ''h2'' [] [NavigableString ''Sample input:''])
       [NavigableString '' '', Tag ''p'' [] [NavigableString ''*NOTHING*''],
        Tag ''h2'' [] [NavigableString ''Sample output:''], Tag ''pre'' [] [NavigableString (CHR 0x0A # ''Hello'')]]
     = Inr (Some ([], ''Sample input''))"
    by (simp add: parse_sample_tag_def heading_name_def sample_text_def b n)
next
  show "fst (AnarchyGolfProblem_download_sample_cases (table_externals [] [(''doc'', nothing_page)])
            \<lparr>ag_problem_id = ''hello''\<rparr> None
            (table_network [(''http://golf.shinh.org/p.rb?hello'', ''http://golf.shinh.org/p.rb?hello'', 200, ''doc'')]))
     = Inr [\<lparr>tc_name = ''sample-1'', input_name = ''Sample input'', input_data = [],
             output_name = ''Sample output'', output_data = ''Hello''\<rparr>]"
    by code_simp
qed

text \<open>
  C6. A recognised heading whose following block is neither a \<open>pre\<close> nor a \<open>p\<close> tag does not
  surface a content-extraction error (\<open>SampleParseError\<close>): with another tag or a text
  after the heading, \<open>s\<close> is never bound and the parse ends in \<open>UnboundLocalError\<close>; with
  nothing after the heading it ends in \<open>AttributeError\<close>.
\<close>

theorem unparseable_sample_raises_unrelated_error:
  "parse_sample_tag ext (Tag ''h2'' [] [NavigableString ''Sample input:''])
       [Tag ''div'' [] [NavigableString ''x'']] = Inl UnboundLocalError
   \<and> parse_sample_tag ext (Tag ''h2'' [] [NavigableString ''Sample output:''])
       [NavigableString ''Hello''] = Inl UnboundLocalError
   \<and> parse_sample_tag ext (Tag ''h2'' [] [NavigableString ''Sample output:'']) [] = Inl AttributeError"
proof -
  have x: "strip ''x'' \<noteq> []" and h: "strip ''Hello'' \<noteq> []"
    by code_simp+
  show ?thesis
    by (simp add: parse_sample_tag_def heading_name_def sample_text_def x h)
qed


subsection \<open>The memo slot of an arena problem\<close>

text \<open>
  C7. Once a call of \<open>get_problem_id\<close> has resolved the letter of an arena problem (it
  returned a problem id that is not \<open>None\<close>), the memo slot holds that id and the arena and
  the letter are unchanged; every later call, with any session and on any network,
  returns the same id, leaves the handle as it is and sends no request; and
  \<open>download_sample_cases\<close> and \<open>download_system_cases\<close> then run the downloads of the
  problem with that id.
\<close>

theorem memo_slot_is_reused:
  "get_problem_id ext self session net = (Inr pid, self', net') \<and> pid \<noteq> JNull
   \<longrightarrow> memo_problem_id self' = pid
       \<and> arena_id self' = arena_id self \<and> alphabet self' = alphabet self
       \<and> get_problem_id ext2 self' session2 net2 = (Inr pid, self', net2)
       \<and> AOJArenaProblem_download_sample_cases ext2 self' session2 net2
           = (fst (AOJProblem_download_sample_cases ext2 \<lparr>aoj_problem_id = pid\<rparr> session2 net2), self',
              snd (AOJProblem_download_sample_cases ext2 \<lparr>aoj_problem_id = pid\<rparr> session2 net2))
       \<and> AOJArenaProblem_download_system_cases ext2 self' session2 net2
           = (fst (AOJProblem_download_system_cases ext2 \<lparr>aoj_problem_id = pid\<rparr> session2 net2), self',
              snd (AOJProblem_download_system_cases ext2 \<lparr>aoj_problem_id = pid\<rparr> session2 net2))"
proof (intro impI)
  assume a: "get_problem_id ext self session net = (Inr pid, self', net') \<and> pid \<noteq> JNull"
  then have f: "self' = self\<lparr>memo_problem_id := pid\<rparr>"
    using get_problem_id_fills by blast
  then have m: "memo_problem_id self' = pid"
    by simp
  with a have n: "memo_problem_id self' \<noteq> JNull"
    by simp
  have g: "\<And>e s n. get_problem_id e self' s n = (Inr pid, self', n)"
    using get_problem_id_memoized [OF n] m by simp
  show "memo_problem_id self' = pid
       \<and> arena_id self' = arena_id self \<and> alphabet self' = alphabet self
       \<and> get_problem_id ext2 self' session2 net2 = (Inr pid, self', net2)
       \<and> AOJArenaProblem_download_sample_cases ext2 self' session2 net2
           = (fst (AOJProblem_download_sample_cases ext2 \<lparr>aoj_problem_id = pid\<rparr> session2 net2), self',
              snd (AOJProblem_download_sample_cases ext2 \<lparr>aoj_problem_id = pid\<rparr> session2 net2))
       \<and> AOJArenaProblem_download_system_cases ext2 self' session2 net2
           = (fst (AOJProblem_download_system_cases ext2 \<lparr>aoj_problem_id = pid\<rparr> session2 net2), self',
              snd (AOJProblem_download_system_cases ext2 \<lparr>aoj_problem_id = pid\<rparr> session2 net2))"
    by (simp add: m f g [unfolded f] AOJArenaProblem_download_sample_cases_def
          AOJArenaProblem_download_system_cases_def split: prod.splits)
qed

theorem memo_slot_is_reused_witness:
  "fst (get_problem_id arena_externals \<lparr>arena_id = ''RitsCamp19Day2'', alphabet = ''B'', memo_problem_id = JNull\<rparr>
          None arena_network) = Inr (JStr ''2882'')
   \<and> get_problem_id arena_externals
        \<lparr>arena_id = ''RitsCamp19Day2'', alphabet = ''B'', memo_problem_id = JStr ''2882''\<rparr> (Some (Session 1))
        (table_network [])
      = (Inr (JStr ''2882''),
         \<lparr>arena_id = ''RitsCamp19Day2'', alphabet = ''B'', memo_problem_id = JStr ''2882''\<rparr>, table_network [])"
proof -
  let ?self = "\<lparr>arena_id = ''RitsCamp19Day2'', alphabet = ''B'', memo_problem_id = JNull\<rparr>"
  let ?self' = "\<lparr>arena_id = ''RitsCamp19Day2'', alphabet = ''B'', memo_problem_id = JStr ''2882''\<rparr>"
  let ?net' = "snd (snd (get_problem_id arena_externals ?self None arena_network))"
  have 1: "fst (get_problem_id arena_externals ?self None arena_network) = Inr (JStr ''2882'')"
    by code_simp
  have 2: "fst (snd (get_problem_id arena_externals ?self None arena_network)) = ?self'"
    by code_simp
  have h: "get_problem_id arena_externals ?self None arena_network = (Inr (JStr ''2882''), ?self', ?net')"
    using 1 2 by (metis prod.collapse)
  from memo_slot_is_reused [where ext = arena_externals and self = ?self and session = None and net = arena_network
      and pid = "JStr ''2882''" and self' = ?self' and net' = ?net' and ?ext2.0 = arena_externals
      and ?session2.0 = "Some (Session 1)" and ?net2.0 = "table_network []"] h
  have 3: "get_problem_id arena_externals ?self' (Some (Session 1)) (table_network [])
             = (Inr (JStr ''2882''), ?self', table_network [])"
    by simp
  show ?thesis using 1 3 by simp
qed

subsection \<open>The bytes of the Aizu Online Judge samples\<close>





end
